theory Spec2Isabelle
  imports Complex_Main "HOL-Library.Word"
begin

section \<open>JavaScript values shared by both source files\<close>

text \<open>
  A decoded JSON document. A property that is missing from an object reads as
  \<open>undefined\<close>, which is modelled by \<open>None\<close> of type \<open>json option\<close>.
\<close>

datatype json =
    JNull
  | JBool bool
  | JNum real
  | JStr string
  | JArr "json list"
  | JObj "(string \<times> json) list"

text \<open>An awaited platform call either throws (with the message of the error) or returns.\<close>

datatype 'a outcome = Throws string | Returns 'a

text \<open>JavaScript truthiness of a value that may be \<open>undefined\<close>.\<close>

fun truthy :: "json option \<Rightarrow> bool" where
  "truthy None = False"
| "truthy (Some JNull) = False"
| "truthy (Some (JBool b)) = b"
| "truthy (Some (JNum x)) = (x \<noteq> 0)"
| "truthy (Some (JStr s)) = (s \<noteq> [])"
| "truthy (Some (JArr xs)) = True"
| "truthy (Some (JObj kvs)) = True"

text \<open>
  Property read \<open>v.key\<close> for the keys the code reads (\<open>status\<close>, \<open>id\<close>, \<open>output\<close>,
  \<open>model\<close>, \<open>input\<close>, \<open>url\<close>): reading from \<open>null\<close> throws a TypeError, an object
  yields the stored value, every other value yields \<open>undefined\<close>.
\<close>

definition null_read_message :: "string \<Rightarrow> string" where
  "null_read_message key = ''Cannot read properties of null (reading '' @ [CHR 0x27] @ key @ [CHR 0x27] @ '')''"

fun get_prop :: "json \<Rightarrow> string \<Rightarrow> string + json option" where
  "get_prop JNull key = Inl (null_read_message key)"
| "get_prop (JObj kvs) key = Inr (map_of kvs key)"
| "get_prop v key = Inr None"

section \<open>The proxy: \<open>supabase/functions/replicate-proxy/index.ts\<close>\<close>

record request =
  req_method :: string
  req_authorization :: "string option"
  req_json :: "json outcome"

datatype body = Text string | Json json

record response =
  status :: nat
  body :: body

record user =
  email :: "string option"

record auth_result =
  auth_user :: "user option"
  auth_error :: bool

record fetch_response =
  resp_ok :: bool
  resp_status :: nat
  resp_json :: "json outcome"

text \<open>
  What the handler does to the outside world, in order: the identity lookup with the
  bearer token, the submission to the provider (the model placed in the URL and the
  \<open>input\<close> sent in the body), each timer wait in milliseconds, and each status fetch
  for a prediction id.
\<close>

datatype event =
    AuthLookup string
  | Submit "json option" "json option"
  | Sleep nat
  | PollStatus "json option"

text \<open>
  The collaborators of the handler: the identity provider, the environment variable
  holding the provider key, the provider's answer to the submission, and its answer to
  the \<open>i\<close>-th status fetch.
\<close>

record env =
  getUser :: "string \<Rightarrow> auth_result outcome"
  REPLICATE_API_TOKEN :: "string option"
  submitFetch :: "json option \<Rightarrow> json option \<Rightarrow> fetch_response outcome"
  pollFetch :: "nat \<Rightarrow> fetch_response outcome"

definition json_response :: "nat \<Rightarrow> json \<Rightarrow> response" where
  "json_response st j = \<lparr>status = st, body = Json j\<rparr>"

definition error_obj :: "string \<Rightarrow> json" where
  "error_obj m = JObj [(''error'', JStr m)]"

text \<open>The \<open>catch\<close> handler of lines 165-174: status 500 with the error's message.\<close>

definition caught :: "string \<Rightarrow> response" where
  "caught m = json_response 500 (error_obj m)"

text \<open>\<open>String.prototype.endsWith\<close> and \<open>String.prototype.replace\<close> with a string pattern
  (only the first occurrence is replaced).\<close>

definition endsWith :: "string \<Rightarrow> string \<Rightarrow> bool" where
  "endsWith s suf = (length suf \<le> length s \<and> drop (length s - length suf) s = suf)"

fun replace :: "string \<Rightarrow> string \<Rightarrow> string \<Rightarrow> string" where
  "replace pat new [] = (if pat = [] then new else [])"
| "replace pat new (c # cs) =
     (if take (length pat) (c # cs) = pat then new @ drop (length pat) (c # cs)
      else c # replace pat new cs)"

text \<open>The polling loop of lines 111-152; \<open>i\<close> is the loop counter.\<close>

function poll_loop :: "env \<Rightarrow> json option \<Rightarrow> nat \<Rightarrow> event list \<Rightarrow> response \<times> event list" where
  "poll_loop e predictionId i tr =
     (if i < 60 then
        (let tr' = tr @ [Sleep 2000, PollStatus predictionId] in
         case pollFetch e i of
           Throws m \<Rightarrow> (caught m, tr')
         | Returns pollResponse \<Rightarrow>
             (case resp_json pollResponse of
                Throws m \<Rightarrow> (caught m, tr')
              | Returns pollData \<Rightarrow>
                  (case get_prop pollData ''status'' of
                     Inl m \<Rightarrow> (caught m, tr')
                   | Inr st \<Rightarrow>
                       if st = Some (JStr ''succeeded'') then (json_response 200 pollData, tr')
                       else if st = Some (JStr ''failed'') \<or> st = Some (JStr ''canceled'')
                         then (json_response 500 pollData, tr')
                       else poll_loop e predictionId (i + 1) tr')))
      else (json_response 408 (error_obj ''Prediction timed out''), tr))"
  by pat_completeness auto
termination
  by (relation "measure (\<lambda>(e, predictionId, i, tr). 60 - i)") auto

declare poll_loop.simps [simp del]

text \<open>Lines 57-163: what happens once the caller is authenticated and authorised.\<close>

definition proxy :: "env \<Rightarrow> request \<Rightarrow> event list \<Rightarrow> response \<times> event list" where
  "proxy e req tr =
     (if REPLICATE_API_TOKEN e = None \<or> REPLICATE_API_TOKEN e = Some []
        then (json_response 500 (error_obj ''Replicate API key not configured''), tr)
      else case req_json req of
        Throws m \<Rightarrow> (caught m, tr)
      | Returns requestBody \<Rightarrow>
          (case get_prop requestBody ''model'' of
             Inl m \<Rightarrow> (caught m, tr)
           | Inr model \<Rightarrow>
               (case get_prop requestBody ''input'' of
                  Inl m \<Rightarrow> (caught m, tr)
                | Inr input \<Rightarrow>
                    (let tr' = tr @ [Submit model input] in
                     case submitFetch e model input of
                       Throws m \<Rightarrow> (caught m, tr')
                     | Returns resp \<Rightarrow>
                         (case resp_json resp of
                            Throws m \<Rightarrow> (caught m, tr')
                          | Returns responseData \<Rightarrow>
                              if \<not> resp_ok resp then (json_response (resp_status resp) responseData, tr')
                              else
                                (case get_prop responseData ''id'' of
                                   Inl m \<Rightarrow> (caught m, tr')
                                 | Inr predictionId \<Rightarrow>
                                     (case get_prop responseData ''status'' of
                                        Inl m \<Rightarrow> (caught m, tr')
                                      | Inr st \<Rightarrow>
                                          if st = Some (JStr ''starting'') \<or> st = Some (JStr ''processing'')
                                            then poll_loop e predictionId 0 tr'
                                          else (json_response 200 responseData, tr'))))))))"

text \<open>The whole handler, lines 9-175.\<close>

definition serve :: "env \<Rightarrow> request \<Rightarrow> response \<times> event list" where
  "serve e req =
     (if req_method req = ''OPTIONS'' then (\<lparr>status = 200, body = Text ''ok''\<rparr>, [])
      else case req_authorization req of
        None \<Rightarrow> (caught ''Missing authorization header'', [])
      | Some authHeader \<Rightarrow>
          if authHeader = [] then (caught ''Missing authorization header'', [])
          else
            (let token = replace ''Bearer '' [] authHeader; tr = [AuthLookup token] in
             case getUser e token of
               Throws m \<Rightarrow> (caught m, tr)
             | Returns r \<Rightarrow>
                 (case auth_user r of
                    None \<Rightarrow> (json_response 401 (error_obj ''Unauthorized''), tr)
                  | Some u \<Rightarrow>
                      if auth_error r then (json_response 401 (error_obj ''Unauthorized''), tr)
                      else if \<not> (case email u of None \<Rightarrow> False | Some em \<Rightarrow> endsWith em ''@cloudwalk.io'')
                        then (json_response 403 (error_obj ''Access denied - Cloudwalk employees only''), tr)
                      else proxy e req tr)))"

text \<open>An event that reaches the generation provider.\<close>

fun is_generation_call :: "event \<Rightarrow> bool" where
  "is_generation_call (Submit m i) = True"
| "is_generation_call (PollStatus p) = True"
| "is_generation_call ev = False"


section \<open>The page script: seeds\<close>

text \<open>
  A JavaScript number that holds an integer, or one of the three non-finite values.
  Every finite IEEE double of magnitude at least \<open>2 ^ 53\<close> is an integer, so sums and
  products of integers stay in this type once they are rounded. The sign of zero is not
  kept: the only place where it could show is behind \<open>Math.abs\<close>.
\<close>

datatype jsnum = Num int | PosInf | NegInf | NaN

fun bit_length :: "nat \<Rightarrow> nat" where
  "bit_length n = (if n = 0 then 0 else Suc (bit_length (n div 2)))"

declare bit_length.simps [simp del]

text \<open>
  The double nearest to an exact integer result: 53 significant bits, ties to the even
  significand, overflow to infinity from \<open>2 ^ 1024\<close> on.
\<close>

definition round_to_double :: "int \<Rightarrow> jsnum" where
  "round_to_double x =
     (let a = nat \<bar>x\<bar>; k = bit_length a in
      if k \<le> 53 then Num x
      else
        (let sh = k - 53;
             q = a div 2 ^ sh;
             r = a mod 2 ^ sh;
             half = 2 ^ (sh - 1);
             q' = (if half < r \<or> (r = half \<and> odd q) then q + 1 else q);
             m = q' * 2 ^ sh
         in if 2 ^ 1024 \<le> m then (if x < 0 then NegInf else PosInf)
            else Num (if x < 0 then - int m else int m)))"

fun js_add :: "jsnum \<Rightarrow> jsnum \<Rightarrow> jsnum" where
  "js_add (Num a) (Num b) = round_to_double (a + b)"
| "js_add NaN y = NaN"
| "js_add x NaN = NaN"
| "js_add PosInf NegInf = NaN"
| "js_add NegInf PosInf = NaN"
| "js_add PosInf y = PosInf"
| "js_add NegInf y = NegInf"
| "js_add x PosInf = PosInf"
| "js_add x NegInf = NegInf"

fun js_mul :: "jsnum \<Rightarrow> jsnum \<Rightarrow> jsnum" where
  "js_mul (Num a) (Num b) = round_to_double (a * b)"
| "js_mul NaN y = NaN"
| "js_mul x NaN = NaN"
| "js_mul PosInf (Num b) = (if b = 0 then NaN else if 0 < b then PosInf else NegInf)"
| "js_mul NegInf (Num b) = (if b = 0 then NaN else if 0 < b then NegInf else PosInf)"
| "js_mul (Num a) PosInf = (if a = 0 then NaN else if 0 < a then PosInf else NegInf)"
| "js_mul (Num a) NegInf = (if a = 0 then NaN else if 0 < a then NegInf else PosInf)"
| "js_mul PosInf PosInf = PosInf"
| "js_mul NegInf NegInf = PosInf"
| "js_mul PosInf NegInf = NegInf"
| "js_mul NegInf PosInf = NegInf"

fun js_abs :: "jsnum \<Rightarrow> jsnum" where
  "js_abs (Num a) = Num \<bar>a\<bar>"
| "js_abs PosInf = PosInf"
| "js_abs NegInf = PosInf"
| "js_abs NaN = NaN"

text \<open>The remainder operator \<open>%\<close>: exact, with the sign of the dividend.\<close>

fun js_rem :: "jsnum \<Rightarrow> jsnum \<Rightarrow> jsnum" where
  "js_rem (Num a) (Num b) =
     (if b = 0 then NaN else Num (sgn a * (\<bar>a\<bar> mod \<bar>b\<bar>)))"
| "js_rem (Num a) PosInf = Num a"
| "js_rem (Num a) NegInf = Num a"
| "js_rem x y = NaN"

text \<open>Truthiness of \<open>window.currentMasterSeed\<close>, which is \<open>undefined\<close> until a run sets it.\<close>

fun truthy_num :: "jsnum option \<Rightarrow> bool" where
  "truthy_num None = False"
| "truthy_num (Some (Num a)) = (a \<noteq> 0)"
| "truthy_num (Some NaN) = False"
| "truthy_num (Some x) = True"

text \<open>
  \<open>generateBetterRandomSeed\<close>, lines 707-716. The argument is what the platform's
  randomness delivers at this call: the 32-bit word that \<open>crypto.getRandomValues\<close>
  writes, or, where \<open>window.crypto\<close> is missing, the double
  \<open>Math.random() * Date.now()\<close> (non-negative).
\<close>

datatype entropy = Crypto "32 word" | NoCrypto real

fun generateBetterRandomSeed :: "entropy \<Rightarrow> jsnum" where
  "generateBetterRandomSeed (Crypto w) = Num (uint w mod 1000000)"
| "generateBetterRandomSeed (NoCrypto x) = Num (\<lfloor>x\<rfloor> mod 1000000)"

text \<open>\<open>generateSeedVariation\<close>, lines 719-723.\<close>

definition generateSeedVariation :: "jsnum \<Rightarrow> jsnum \<Rightarrow> jsnum" where
  "generateSeedVariation masterSeed variation =
     (let hash = js_mul (js_add masterSeed variation) (Num 9973)
      in js_rem (js_abs hash) (Num 1000000))"

text \<open>
  The argument expression of lines 1671, 1842 and 1999,
  \<open>generateSeedVariation(window.currentMasterSeed || generateBetterRandomSeed(), k)\<close>:
  the right operand of \<open>||\<close> is evaluated, and fresh randomness drawn, exactly when the
  stored master seed is falsy.
\<close>

definition stageSeed :: "jsnum option \<Rightarrow> entropy \<Rightarrow> int \<Rightarrow> jsnum" where
  "stageSeed currentMasterSeed fresh k =
     generateSeedVariation
       (case currentMasterSeed of
          None \<Rightarrow> generateBetterRandomSeed fresh
        | Some stored \<Rightarrow>
            if truthy_num (Some stored) then stored else generateBetterRandomSeed fresh)
       (Num k)"


section \<open>The page script: one stage result from a provider response\<close>

text \<open>
  Lines 1724-1737, repeated at 1879-1892 and 2047-2060: the candidate taken from
  \<open>result.output\<close>.
\<close>

definition extractUrl :: "json option \<Rightarrow> json option" where
  "extractUrl output =
     (if truthy output then
        (case output of
           Some (JArr (x # xs)) \<Rightarrow> Some x
         | Some (JStr s) \<Rightarrow> Some (JStr s)
         | _ \<Rightarrow> None)
      else None)"

text \<open>
  The errors thrown inside a stage function; each is caught by the function's own outer
  \<open>catch\<close>. \<open>Thrown\<close> carries the message of an error raised by the platform.
\<close>

datatype stage_error =
    AuthTokenFailed
  | EdgeFunctionFailed
  | ExpectedJson
  | ServerlessFailed
  | NoUrlInResponse
  | InvalidUrlFormat json
  | Thrown string

text \<open>
  Lines 1739-1757, repeated at 1894-1912 and 2062-2080. The first argument stands for
  the platform's \<open>new URL(v).protocol\<close>: \<open>None\<close> when the constructor throws.
  The error for a wrong protocol is thrown inside the \<open>try\<close> and replaced by the
  \<open>catch\<close> below it, so both failures end as the same error.
\<close>

definition validateUrl :: "(json \<Rightarrow> string option) \<Rightarrow> json option \<Rightarrow> stage_error + json" where
  "validateUrl url_protocol extractedUrl =
     (case extractedUrl of
        None \<Rightarrow> Inl NoUrlInResponse
      | Some v \<Rightarrow>
          if \<not> truthy (Some v) then Inl NoUrlInResponse
          else
            (case url_protocol v of
               None \<Rightarrow> Inl (InvalidUrlFormat v)
             | Some protocol \<Rightarrow>
                 if protocol = ''http:'' \<or> protocol = ''https:'' then Inr v
                 else Inl (InvalidUrlFormat v)))"

section \<open>The page script: the three stage functions\<close>

text \<open>
  The status lines the script writes, by their text:
  \<open>Waiting\<close> is the text set by \<open>clearOutputs\<close>;
  \<open>GeneratingImage\<close>, \<open>RemovingText\<close> and \<open>GeneratingVideo\<close> are the three progress
  lines with the loading picture;
  \<open>Disabled\<close> is "Disabled (checkbox unchecked)";
  \<open>Done\<close> is "Done.";
  \<open>ImageFailed\<close> is "Image generation failed.";
  \<open>InvalidImageUrl\<close> is "Invalid image URL received.";
  \<open>NoImageDisabledOrFailed\<close> is "No image to process (image generation disabled or failed)";
  \<open>NoImageToProcess\<close> is "No image to process.";
  \<open>TextRemovalFailed\<close> is "Text removal failed.";
  \<open>VideoFailed\<close> is "Seedance video generation failed.".
\<close>

datatype status_text =
    Waiting
  | GeneratingImage
  | RemovingText
  | GeneratingVideo
  | Disabled
  | Done
  | ImageFailed
  | InvalidImageUrl
  | NoImageDisabledOrFailed
  | NoImageToProcess
  | TextRemovalFailed
  | VideoFailed

text \<open>
  Where a request goes: the edge function \<open>supabaseConfig.functions.replicate\<close>, or
  one of the three serverless paths under \<open>API_BASE\<close>.
\<close>

datatype endpoint = ReplicateFunction | ApiImage | ApiSeededit | ApiSeedance

record call =
  call_endpoint :: endpoint
  call_bearer :: "string option"
  call_body :: json

record reply =
  reply_ok :: bool
  reply_content_type :: "string option"
  reply_json :: "json outcome"

text \<open>
  What the script reads from its surroundings. \<open>signedIn\<close> is
  \<open>cloudwalkAuth?.isAuthenticated && cloudwalkAuth?.user?.accessToken\<close>;
  \<open>requireAuth\<close> is false exactly when \<open>cloudwalkAuth\<close> exists and its
  \<open>requireAuth()\<close> returns a falsy value (line 1099);
  \<open>supabaseConfig\<close> says whether \<open>window.supabaseConfig\<close> is set;
  \<open>getAuthToken\<close> is what \<open>cloudwalkAuth.getAuthToken()\<close> yields;
  \<open>freshSeed k\<close> is the randomness that stage \<open>k\<close> would draw for its seed;
  \<open>fetch\<close> is the answer to a request;
  \<open>URL_protocol v\<close> is \<open>new URL(v).protocol\<close>, or \<open>None\<close> when the constructor
  throws;
  \<open>seededitContainer\<close> and \<open>seedanceContainer\<close> say whether the two elements exist.
  Rendering (the image and video elements, the preview) is not part of the model.
\<close>

record browser =
  signedIn :: bool
  requireAuth :: bool
  supabaseConfig :: bool
  getAuthToken :: "string option outcome"
  currentMasterSeed :: "jsnum option"
  freshSeed :: "int \<Rightarrow> entropy"
  fetch :: "call \<Rightarrow> reply outcome"
  URL_protocol :: "json \<Rightarrow> string option"
  seededitContainer :: bool
  seedanceContainer :: bool

text \<open>
  What a run leaves behind: the requests sent, in order, and the three status lines.
  The elements \<open>seededitStatus\<close> and \<open>seedanceStatus\<close> may be missing from the
  page (\<open>None\<close>); the script tests them before each write.
\<close>

record page =
  calls :: "call list"
  imageStatus :: status_text
  seededitStatus :: "status_text option"
  seedanceStatus :: "status_text option"

definition set_status :: "status_text option \<Rightarrow> status_text \<Rightarrow> status_text option" where
  "set_status el t = map_option (\<lambda>old. t) el"

text \<open>An object literal as \<open>JSON.stringify\<close> sends it: undefined properties are left out.\<close>

fun obj_fields :: "(string \<times> json option) list \<Rightarrow> (string \<times> json) list" where
  "obj_fields [] = []"
| "obj_fields ((k, None) # kvs) = obj_fields kvs"
| "obj_fields ((k, Some v) # kvs) = (k, v) # obj_fields kvs"

text \<open>A seed as \<open>JSON.stringify\<close> sends it: a non-finite number becomes \<open>null\<close>.\<close>

fun seed_json :: "jsnum \<Rightarrow> json" where
  "seed_json (Num n) = JNum (of_int n)"
| "seed_json x = JNull"

text \<open>\<open>String.prototype.includes\<close>.\<close>

fun js_includes :: "string \<Rightarrow> string \<Rightarrow> bool" where
  "js_includes [] sub = (sub = [])"
| "js_includes (c # cs) sub = (take (length sub) (c # cs) = sub \<or> js_includes cs sub)"

definition useEdgeFunctions :: "browser \<Rightarrow> bool" where
  "useEdgeFunctions e = (signedIn e \<and> supabaseConfig e)"

fun is_string :: "json option \<Rightarrow> bool" where
  "is_string (Some (JStr s)) = True"
| "is_string v = False"

fun parses :: "browser \<Rightarrow> json option \<Rightarrow> bool" where
  "parses e None = False"
| "parses e (Some v) = (URL_protocol e v \<noteq> None)"

text \<open>
  The request of \<open>generateImage\<close> on the edge-function path (lines 1671-1695, the
  seed of line 1671 in the body) and on the serverless path (lines 1766-1771). The seed
  of line 1645 is only written to the console.
\<close>

definition image_edge_call :: "browser \<Rightarrow> json option \<Rightarrow> string \<Rightarrow> call" where
  "image_edge_call e imagePrompt authToken =
     (let imageSeed = stageSeed (currentMasterSeed e) (freshSeed e 1) 1
      in \<lparr>call_endpoint = ReplicateFunction, call_bearer = Some authToken,
          call_body = JObj
            [(''model'', JStr ''bytedance/seedream-3''),
             (''input'', JObj (obj_fields
                [(''prompt'', imagePrompt),
                 (''guidance_scale'', Some (JNum 2.5)),
                 (''seed'', Some (seed_json imageSeed)),
                 (''width'', Some (JNum 1000)),
                 (''height'', Some (JNum 1000)),
                 (''num_outputs'', Some (JNum 1))]))]\<rparr>)"

definition image_api_call :: "json option \<Rightarrow> call" where
  "image_api_call imagePrompt =
     \<lparr>call_endpoint = ApiImage, call_bearer = None,
      call_body = JObj (obj_fields [(''prompt'', imagePrompt)])\<rparr>"

text \<open>
  The body of the \<open>try\<close> of \<open>generateImage\<close> up to line 1775: the requests it
  sends, and either the error thrown or the value left in \<open>imageUrl\<close>.
\<close>

definition image_request :: "browser \<Rightarrow> json option \<Rightarrow> call list \<times> (stage_error + json option)" where
  "image_request e imagePrompt =
     (if useEdgeFunctions e then
        (case getAuthToken e of
           Throws m \<Rightarrow> ([], Inl (Thrown m))
         | Returns None \<Rightarrow> ([], Inl AuthTokenFailed)
         | Returns (Some authToken) \<Rightarrow>
             if authToken = [] then ([], Inl AuthTokenFailed)
             else
               (let c = image_edge_call e imagePrompt authToken
                in case fetch e c of
                     Throws m \<Rightarrow> ([c], Inl (Thrown m))
                   | Returns response \<Rightarrow>
                       if \<not> reply_ok response then ([c], Inl EdgeFunctionFailed)
                       else if (case reply_content_type response of
                                  None \<Rightarrow> True
                                | Some contentType \<Rightarrow> \<not> js_includes contentType ''application/json'')
                         then ([c], Inl ExpectedJson)
                       else
                         (case reply_json response of
                            Throws m \<Rightarrow> ([c], Inl (Thrown m))
                          | Returns result \<Rightarrow>
                              (case get_prop result ''status'' of
                                 Inl m \<Rightarrow> ([c], Inl (Thrown m))
                               | Inr st \<Rightarrow>
                                   (case get_prop result ''output'' of
                                      Inl m \<Rightarrow> ([c], Inl (Thrown m))
                                    | Inr output \<Rightarrow>
                                        (case validateUrl (URL_protocol e) (extractUrl output) of
                                           Inl err \<Rightarrow> ([c], Inl err)
                                         | Inr imageUrl \<Rightarrow> ([c], Inr (Some imageUrl))))))))
      else
        (let c = image_api_call imagePrompt
         in case fetch e c of
              Throws m \<Rightarrow> ([c], Inl (Thrown m))
            | Returns r \<Rightarrow>
                if \<not> reply_ok r then ([c], Inl ServerlessFailed)
                else
                  (case reply_json r of
                     Throws m \<Rightarrow> ([c], Inl (Thrown m))
                   | Returns j \<Rightarrow>
                       (case get_prop j ''url'' of
                          Inl m \<Rightarrow> ([c], Inl (Thrown m))
                        | Inr imageUrl \<Rightarrow> ([c], Inr imageUrl)))))"

text \<open>\<open>generateImage\<close>, lines 1639-1817: the value returned and the page afterwards.\<close>

definition generateImage :: "browser \<Rightarrow> json option \<Rightarrow> page \<Rightarrow> json option \<times> page" where
  "generateImage e imagePrompt p =
     (case image_request e imagePrompt of
        (cs, Inl err) \<Rightarrow> (None, p\<lparr>calls := calls p @ cs, imageStatus := ImageFailed\<rparr>)
      | (cs, Inr imageUrl) \<Rightarrow>
          if truthy imageUrl then
            (if \<not> parses e imageUrl
               then (None, p\<lparr>calls := calls p @ cs, imageStatus := InvalidImageUrl\<rparr>)
             else (imageUrl, p\<lparr>calls := calls p @ cs, imageStatus := Done\<rparr>))
          else (imageUrl, p\<lparr>calls := calls p @ cs, imageStatus := ImageFailed\<rparr>))"


text \<open>
  The request of \<open>generateSeededit\<close> on the edge-function path (lines 1842-1864)
  and on the serverless path (lines 1921-1927).
\<close>

definition seededit_edge_call :: "browser \<Rightarrow> json option \<Rightarrow> string \<Rightarrow> call" where
  "seededit_edge_call e imageUrl authToken =
     (let seededitSeed = stageSeed (currentMasterSeed e) (freshSeed e 2) 2
      in \<lparr>call_endpoint = ReplicateFunction, call_bearer = Some authToken,
          call_body = JObj
            [(''model'', JStr ''bytedance/seededit-3.0''),
             (''input'', JObj (obj_fields
                [(''image'', imageUrl),
                 (''prompt'', Some (JStr ''remove text from image, remove name of the shop, remove letterings, remove subtitle, remove storefront name, remove text, remove all written, remove every text'')),
                 (''guidance_scale'', Some (JNum 5.5)),
                 (''seed'', Some (seed_json seededitSeed))]))]\<rparr>)"

definition seededit_api_call :: "json option \<Rightarrow> call" where
  "seededit_api_call imageUrl =
     \<lparr>call_endpoint = ApiSeededit, call_bearer = None,
      call_body = JObj (obj_fields [(''imageUrl'', imageUrl)])\<rparr>"

text \<open>
  The body of the \<open>try\<close> of \<open>generateSeededit\<close> after the guard, lines 1830-1931.
\<close>

definition seededit_request :: "browser \<Rightarrow> json option \<Rightarrow> call list \<times> (stage_error + json option)" where
  "seededit_request e imageUrl =
     (if useEdgeFunctions e then
        (case getAuthToken e of
           Throws m \<Rightarrow> ([], Inl (Thrown m))
         | Returns None \<Rightarrow> ([], Inl AuthTokenFailed)
         | Returns (Some authToken) \<Rightarrow>
             if authToken = [] then ([], Inl AuthTokenFailed)
             else
               (let c = seededit_edge_call e imageUrl authToken
                in case fetch e c of
                     Throws m \<Rightarrow> ([c], Inl (Thrown m))
                   | Returns response \<Rightarrow>
                       if \<not> reply_ok response then ([c], Inl EdgeFunctionFailed)
                       else
                         (case reply_json response of
                            Throws m \<Rightarrow> ([c], Inl (Thrown m))
                          | Returns result \<Rightarrow>
                              (case get_prop result ''status'' of
                                 Inl m \<Rightarrow> ([c], Inl (Thrown m))
                               | Inr st \<Rightarrow>
                                   (case get_prop result ''output'' of
                                      Inl m \<Rightarrow> ([c], Inl (Thrown m))
                                    | Inr output \<Rightarrow>
                                        (case validateUrl (URL_protocol e) (extractUrl output) of
                                           Inl err \<Rightarrow> ([c], Inl err)
                                         | Inr editedImageUrl \<Rightarrow> ([c], Inr (Some editedImageUrl))))))))
      else
        (let c = seededit_api_call imageUrl
         in case fetch e c of
              Throws m \<Rightarrow> ([c], Inl (Thrown m))
            | Returns r \<Rightarrow>
                if \<not> reply_ok r then ([c], Inl ServerlessFailed)
                else
                  (case reply_json r of
                     Throws m \<Rightarrow> ([c], Inl (Thrown m))
                   | Returns j \<Rightarrow>
                       (case get_prop j ''url'' of
                          Inl m \<Rightarrow> ([c], Inl (Thrown m))
                        | Inr editedImageUrl \<Rightarrow> ([c], Inr editedImageUrl)))))"

text \<open>\<open>generateSeededit\<close>, lines 1821-1980.\<close>

definition generateSeededit :: "browser \<Rightarrow> json option \<Rightarrow> page \<Rightarrow> json option \<times> page" where
  "generateSeededit e imageUrl p =
     (if \<not> truthy imageUrl
        then (None, p\<lparr>seededitStatus := set_status (seededitStatus p) NoImageToProcess\<rparr>)
      else
        (case seededit_request e imageUrl of
           (cs, Inl err) \<Rightarrow>
             (None, p\<lparr>calls := calls p @ cs,
                      seededitStatus := set_status (seededitStatus p) TextRemovalFailed\<rparr>)
         | (cs, Inr editedImageUrl) \<Rightarrow>
             if truthy editedImageUrl \<and> seededitContainer e
               then (editedImageUrl, p\<lparr>calls := calls p @ cs,
                                       seededitStatus := set_status (seededitStatus p) Done\<rparr>)
             else (editedImageUrl, p\<lparr>calls := calls p @ cs,
                                     seededitStatus := set_status (seededitStatus p) TextRemovalFailed\<rparr>)))"

text \<open>
  The request of \<open>generateSeedanceVideo\<close> on the edge-function path (lines
  1999-2032) and on the serverless path (lines 2089-2106). The property \<open>image\<close>
  is added only when \<open>startFrameUrl\<close> is truthy (lines 2016 and 2098).
\<close>

definition seedance_edge_call :: "browser \<Rightarrow> json option \<Rightarrow> json option \<Rightarrow> string \<Rightarrow> call" where
  "seedance_edge_call e videoPrompt startFrameUrl authToken =
     (let videoSeed = stageSeed (currentMasterSeed e) (freshSeed e 3) 3
      in \<lparr>call_endpoint = ReplicateFunction, call_bearer = Some authToken,
          call_body = JObj
            [(''model'', JStr ''bytedance/seedance-1-lite''),
             (''input'', JObj (obj_fields
                [(''prompt'', videoPrompt),
                 (''duration'', Some (JNum 5)),
                 (''resolution'', Some (JStr ''480p'')),
                 (''aspect_ratio'', Some (JStr ''16:9'')),
                 (''fps'', Some (JNum 24)),
                 (''camera_fixed'', Some (JBool False)),
                 (''seed'', Some (seed_json videoSeed)),
                 (''image'', if truthy startFrameUrl then startFrameUrl else None)]))]\<rparr>)"

definition seedance_api_call :: "json option \<Rightarrow> json option \<Rightarrow> call" where
  "seedance_api_call videoPrompt startFrameUrl =
     \<lparr>call_endpoint = ApiSeedance, call_bearer = None,
      call_body = JObj (obj_fields
        [(''prompt'', videoPrompt),
         (''duration'', Some (JNum 5)),
         (''resolution'', Some (JStr ''480p'')),
         (''aspect_ratio'', Some (JStr ''16:9'')),
         (''fps'', Some (JNum 24)),
         (''camera_fixed'', Some (JBool False)),
         (''image'', if truthy startFrameUrl then startFrameUrl else None)])\<rparr>"

text \<open>
  The body of the \<open>try\<close> of \<open>generateSeedanceVideo\<close>, lines 1987-2110. On the
  edge-function path line 2018 calls \<open>startFrameUrl.substring\<close>, which throws for a
  truthy value that is not a string, before anything is sent.
\<close>

definition seedance_request ::
  "browser \<Rightarrow> json option \<Rightarrow> json option \<Rightarrow> call list \<times> (stage_error + json option)" where
  "seedance_request e videoPrompt startFrameUrl =
     (if useEdgeFunctions e then
        (case getAuthToken e of
           Throws m \<Rightarrow> ([], Inl (Thrown m))
         | Returns None \<Rightarrow> ([], Inl AuthTokenFailed)
         | Returns (Some authToken) \<Rightarrow>
             if authToken = [] then ([], Inl AuthTokenFailed)
             else if truthy startFrameUrl \<and> \<not> is_string startFrameUrl
               then ([], Inl (Thrown ''startFrameUrl.substring is not a function''))
             else
               (let c = seedance_edge_call e videoPrompt startFrameUrl authToken
                in case fetch e c of
                     Throws m \<Rightarrow> ([c], Inl (Thrown m))
                   | Returns response \<Rightarrow>
                       if \<not> reply_ok response then ([c], Inl EdgeFunctionFailed)
                       else
                         (case reply_json response of
                            Throws m \<Rightarrow> ([c], Inl (Thrown m))
                          | Returns result \<Rightarrow>
                              (case get_prop result ''status'' of
                                 Inl m \<Rightarrow> ([c], Inl (Thrown m))
                               | Inr st \<Rightarrow>
                                   (case get_prop result ''output'' of
                                      Inl m \<Rightarrow> ([c], Inl (Thrown m))
                                    | Inr output \<Rightarrow>
                                        (case validateUrl (URL_protocol e) (extractUrl output) of
                                           Inl err \<Rightarrow> ([c], Inl err)
                                         | Inr videoUrl \<Rightarrow> ([c], Inr (Some videoUrl))))))))
      else
        (let c = seedance_api_call videoPrompt startFrameUrl
         in case fetch e c of
              Throws m \<Rightarrow> ([c], Inl (Thrown m))
            | Returns r \<Rightarrow>
                if \<not> reply_ok r then ([c], Inl ServerlessFailed)
                else
                  (case reply_json r of
                     Throws m \<Rightarrow> ([c], Inl (Thrown m))
                   | Returns j \<Rightarrow>
                       (case get_prop j ''url'' of
                          Inl m \<Rightarrow> ([c], Inl (Thrown m))
                        | Inr videoUrl \<Rightarrow> ([c], Inr videoUrl)))))"

text \<open>\<open>generateSeedanceVideo\<close>, lines 1982-2145.\<close>

definition generateSeedanceVideo ::
  "browser \<Rightarrow> json option \<Rightarrow> json option \<Rightarrow> page \<Rightarrow> json option \<times> page" where
  "generateSeedanceVideo e videoPrompt startFrameUrl p =
     (case seedance_request e videoPrompt startFrameUrl of
        (cs, Inl err) \<Rightarrow>
          (None, p\<lparr>calls := calls p @ cs,
                   seedanceStatus := set_status (seedanceStatus p) VideoFailed\<rparr>)
      | (cs, Inr videoUrl) \<Rightarrow>
          if truthy videoUrl \<and> seedanceContainer e
            then (videoUrl, p\<lparr>calls := calls p @ cs,
                               seedanceStatus := set_status (seedanceStatus p) Done\<rparr>)
          else (videoUrl, p\<lparr>calls := calls p @ cs,
                             seedanceStatus := set_status (seedanceStatus p) VideoFailed\<rparr>))"

section \<open>The page script: the orchestrator \<open>onGenerate\<close>\<close>

text \<open>
  The four checkboxes. \<open>useStartFrame\<close> is \<open>None\<close> when the element is missing, which
  the script tests at line 1175.
\<close>

record config =
  enableImage :: bool
  enableSeededit :: bool
  enableSeedance :: bool
  useStartFrame :: "bool option"

text \<open>
  Which console line the start-frame selection of lines 1166-1201 ends with, and the
  console method that prints it:
  \<open>FrameConfirmed\<close> "Valid start frame URL confirmed" (\<open>console.log\<close>);
  \<open>FrameInvalid\<close> "Invalid start frame URL" (\<open>console.error\<close>);
  \<open>FrameSelectionError\<close> "Error in start frame selection logic" (\<open>console.error\<close>);
  \<open>NoImageAvailable\<close> "Start frame enabled but no image available - proceeding without
  start frame" (\<open>console.log\<close>);
  \<open>FrameDisabled\<close> "Start frame disabled - proceeding without start frame"
  (\<open>console.log\<close>).
\<close>

datatype frame_note = FrameConfirmed | FrameInvalid | FrameSelectionError | NoImageAvailable | FrameDisabled

datatype console_method = ConsoleLog | ConsoleError

fun note_method :: "frame_note \<Rightarrow> console_method" where
  "note_method FrameConfirmed = ConsoleLog"
| "note_method FrameInvalid = ConsoleError"
| "note_method FrameSelectionError = ConsoleError"
| "note_method NoImageAvailable = ConsoleLog"
| "note_method FrameDisabled = ConsoleLog"

text \<open>
  Lines 1166-1201. Line 1177 calls \<open>candidateUrl.substring\<close>, which throws for a truthy
  value that is not a string; the outer \<open>catch\<close> then leaves no start frame.
\<close>

definition selectStartFrame ::
  "browser \<Rightarrow> bool option \<Rightarrow> json option \<Rightarrow> json option \<Rightarrow> json option \<times> frame_note" where
  "selectStartFrame e useStartFrameEl editedImageUrl imageUrl =
     (if useStartFrameEl = Some True then
        (let candidateUrl = (if truthy editedImageUrl then editedImageUrl else imageUrl) in
         if truthy candidateUrl \<and> \<not> is_string candidateUrl then (None, FrameSelectionError)
         else if truthy candidateUrl then
           (if parses e candidateUrl then (candidateUrl, FrameConfirmed)
            else (None, FrameInvalid))
         else (None, NoImageAvailable))
      else (None, FrameDisabled))"

text \<open>What a run computed: the three results, the chosen start frame, and the page.\<close>

record run =
  run_imageUrl :: "json option"
  run_editedImageUrl :: "json option"
  run_startFrame :: "(json option \<times> frame_note) option"
  run_seedanceUrl :: "json option"
  run_page :: page

text \<open>\<open>clearOutputs\<close>, lines 1227-1243, as far as the status lines go.\<close>

definition clearOutputs :: "page \<Rightarrow> page" where
  "clearOutputs p =
     p\<lparr>imageStatus := Waiting,
       seededitStatus := set_status (seededitStatus p) Waiting,
       seedanceStatus := set_status (seedanceStatus p) Waiting\<rparr>"

text \<open>
  A property read on a value that is known not to be \<open>null\<close>.
\<close>

definition read_prop :: "json \<Rightarrow> string \<Rightarrow> json option" where
  "read_prop v key = (case get_prop v key of Inl m \<Rightarrow> None | Inr x \<Rightarrow> x)"

text \<open>Step 1 of \<open>onGenerate\<close>, lines 1137-1145.\<close>

definition step1_image :: "browser \<Rightarrow> config \<Rightarrow> json \<Rightarrow> page \<Rightarrow> json option \<times> page" where
  "step1_image e cfg promptResult p =
     (if enableImage cfg
        then generateImage e (read_prop promptResult ''image_prompt'')
               (p\<lparr>imageStatus := GeneratingImage\<rparr>)
      else (None, p\<lparr>imageStatus := Disabled\<rparr>))"

text \<open>Step 2, lines 1147-1157.\<close>

definition step2_seededit :: "browser \<Rightarrow> config \<Rightarrow> json option \<Rightarrow> page \<Rightarrow> json option \<times> page" where
  "step2_seededit e cfg imageUrl p =
     (if enableSeededit cfg \<and> truthy imageUrl
        then generateSeededit e imageUrl
               (p\<lparr>seededitStatus := set_status (seededitStatus p) RemovingText\<rparr>)
      else if enableSeededit cfg \<and> \<not> truthy imageUrl
        then (None, p\<lparr>seededitStatus := set_status (seededitStatus p) NoImageDisabledOrFailed\<rparr>)
      else (None, p\<lparr>seededitStatus := set_status (seededitStatus p) Disabled\<rparr>))"

text \<open>
  Step 3, lines 1159-1206: the start frame chosen (when the stage runs), the video
  result and the page.
\<close>

definition step3_video ::
  "browser \<Rightarrow> config \<Rightarrow> json \<Rightarrow> json option \<Rightarrow> json option \<Rightarrow> page \<Rightarrow>
     (json option \<times> frame_note) option \<times> json option \<times> page" where
  "step3_video e cfg promptResult editedImageUrl imageUrl p =
     (if enableSeedance cfg then
        (let sel = selectStartFrame e (useStartFrame cfg) editedImageUrl imageUrl;
             res = generateSeedanceVideo e (read_prop promptResult ''video_prompt'') (fst sel)
                     (p\<lparr>seedanceStatus := set_status (seedanceStatus p) GeneratingVideo\<rparr>)
         in (Some sel, fst res, snd res))
      else (None, None, p\<lparr>seedanceStatus := set_status (seedanceStatus p) Disabled\<rparr>))"

text \<open>
  \<open>onGenerate\<close>, lines 1097-1206. \<open>masterEntropy\<close> is the randomness behind the
  master seed of line 1112; \<open>promptResult\<close> is what \<open>callOpenAIForPrompts\<close>
  returned (\<open>None\<close> for \<open>null\<close>). The console summary and the unlocking of the
  buttons that follow the three steps (lines 1208-1219) are left out.
\<close>

definition onGenerate :: "browser \<Rightarrow> config \<Rightarrow> entropy \<Rightarrow> json option \<Rightarrow> page \<Rightarrow> run" where
  "onGenerate e0 cfg masterEntropy promptResult p =
     (if \<not> requireAuth e0 \<or> \<not> signedIn e0
        then \<lparr>run_imageUrl = None, run_editedImageUrl = None, run_startFrame = None,
              run_seedanceUrl = None, run_page = p\<rparr>
      else
        (let masterSeed = generateBetterRandomSeed masterEntropy;
             e = e0\<lparr>currentMasterSeed := Some masterSeed\<rparr>;
             p0 = clearOutputs p
         in case promptResult of
              None \<Rightarrow>
                \<lparr>run_imageUrl = None, run_editedImageUrl = None, run_startFrame = None,
                 run_seedanceUrl = None, run_page = p0\<rparr>
            | Some pr \<Rightarrow>
                if \<not> truthy (Some pr)
                  then \<lparr>run_imageUrl = None, run_editedImageUrl = None, run_startFrame = None,
                        run_seedanceUrl = None, run_page = p0\<rparr>
                else
                  (let s1 = step1_image e cfg pr p0;
                       s2 = step2_seededit e cfg (fst s1) (snd s1);
                       s3 = step3_video e cfg pr (fst s2) (fst s1) (snd s2)
                   in \<lparr>run_imageUrl = fst s1, run_editedImageUrl = fst s2,
                       run_startFrame = fst s3, run_seedanceUrl = fst (snd s3),
                       run_page = snd (snd s3)\<rparr>)))"

text \<open>Requests that submit the Edit stage and the Video stage, and the start frame a request carries.\<close>

definition is_edit_call :: "call \<Rightarrow> bool" where
  "is_edit_call c =
     (call_endpoint c = ApiSeededit \<or>
      (call_endpoint c = ReplicateFunction \<and>
       get_prop (call_body c) ''model'' = Inr (Some (JStr ''bytedance/seededit-3.0''))))"

definition is_video_call :: "call \<Rightarrow> bool" where
  "is_video_call c =
     (call_endpoint c = ApiSeedance \<or>
      (call_endpoint c = ReplicateFunction \<and>
       get_prop (call_body c) ''model'' = Inr (Some (JStr ''bytedance/seedance-1-lite''))))"

definition start_frame_of :: "call \<Rightarrow> json option" where
  "start_frame_of c =
     (if call_endpoint c = ReplicateFunction
        then (case read_prop (call_body c) ''input'' of
                None \<Rightarrow> None
              | Some input \<Rightarrow> read_prop input ''image'')
      else read_prop (call_body c) ''image'')"


section \<open>The page script: \<open>callOpenAIForPrompts\<close> and its fallback copy\<close>

text \<open>
  Strings are lists of UTF-16 code units; every unit in the texts below is under 256,
  so one \<open>char\<close> holds it. Of the profile only the fields that decide what the
  function returns (lines 1318 and 1560-1631) are kept.
\<close>

record profile =
  profile_city :: string
  profile_cnae :: string
  profile_productCallout :: string

text \<open>
  The random choices the function makes before it calls the language model, lines
  1313-1395: the index \<open>Math.floor(Math.random() * timesOfDay.length)\<close>, the indices
  that \<open>getRandomFromArray\<close> takes into \<open>ETHNICITIES\<close> and \<open>IDLE_ACTIONS\<close>, and the
  B-roll text (empty when the box is not checked, otherwise the scene that
  \<open>getBRollText\<close> picked).
\<close>

record draws =
  timeIndex :: nat
  ethnicityIndex :: nat
  idleIndex :: nat
  safeBRollText :: string

text \<open>Lines 242-253 and 264-275.\<close>

definition ETHNICITIES :: "string list" where
  "ETHNICITIES =
     [''parda, pele morena, tra'' @ [CHR 0xE7] @ ''os mistos'',
      ''negra, pele escura, tra'' @ [CHR 0xE7] @ ''os afrodescendentes'',
      ''branca, pele clara, tra'' @ [CHR 0xE7] @ ''os europeus'',
      ''morena, pele bronzeada, tra'' @ [CHR 0xE7] @ ''os brasileiros t'' @ [CHR 0xED] @ ''picos'',
      ''negra retinta, pele bem escura, cabelos crespos'',
      ''parda clara, pele amorenada, cabelos ondulados'',
      ''asi'' @ [CHR 0xE1] @ ''tica, descendente japonesa, tra'' @ [CHR 0xE7] @ ''os orientais'',
      ''ind'' @ [CHR 0xED] @ ''gena, tra'' @ [CHR 0xE7] @ ''os nativos brasileiros'',
      ''mulata, pele dourada, tra'' @ [CHR 0xE7] @ ''os afro-brasileiros'',
      ''cafuza, mistura ind'' @ [CHR 0xED] @ ''gena e africana, pele acobreada'']"

definition IDLE_ACTIONS :: "string list" where
  "IDLE_ACTIONS =
     [''pose de her'' @ [CHR 0xF3] @ ''i olhando para c'' @ [CHR 0xE2] @ ''mera com confian'' @ [CHR 0xE7] @ ''a'',
      ''dando tchau para c'' @ [CHR 0xE2] @ ''mera com sorriso caloroso'',
      ''mostrando sua loja com gesto de orgulho'',
      ''apontando para baixo na direita incentivando o click'',
      ''pose de empres'' @ [CHR 0xE1] @ ''rio bem-sucedido sorrindo'',
      ''fazendo sinal de positivo com polegar para cima'',
      ''acenando animado para a c'' @ [CHR 0xE2] @ ''mera'',
      ''pose de boas-vindas com bra'' @ [CHR 0xE7] @ ''os abertos'',
      ''sorrindo e apontando para produtos da loja'',
      ''pose confiante de quem domina o neg'' @ [CHR 0xF3] @ ''cio'']"

text \<open>An array read; an index past the end reads \<open>undefined\<close>, printed as such.\<close>

definition element_text :: "string list \<Rightarrow> nat \<Rightarrow> string" where
  "element_text xs i = (if i < length xs then xs ! i else ''undefined'')"

definition randomEthnicity :: "draws \<Rightarrow> string" where
  "randomEthnicity d = element_text ETHNICITIES (ethnicityIndex d)"

definition randomIdleAction :: "draws \<Rightarrow> string" where
  "randomIdleAction d = element_text IDLE_ACTIONS (idleIndex d)"

definition timesOfDay :: "string list" where
  "timesOfDay = [''Amanhecer'', ''Meio-dia ensolarado'', ''Final de tarde'', ''Anoitecer'', ''Noite'']"

definition randomTimeOfDay :: "draws \<Rightarrow> string" where
  "randomTimeOfDay d = element_text timesOfDay (timeIndex d)"

text \<open>\<open>String.prototype.split\<close> with a separator string.\<close>

function js_split :: "string \<Rightarrow> string \<Rightarrow> string \<Rightarrow> string list" where
  "js_split sep acc [] = [acc]"
| "js_split sep acc (c # cs) =
     (if sep \<noteq> [] \<and> take (length sep) (c # cs) = sep
        then acc # js_split sep [] (drop (length sep) (c # cs))
      else js_split sep (acc @ [c]) cs)"
  by pat_completeness auto
termination
  by (relation "measure (\<lambda>(sep, acc, s). length s)") auto

text \<open>\<open>profile.cnae ? profile.cnae.split(' - ')[1] || 'loja' : 'loja'\<close>.\<close>

definition businessTypeOf :: "profile \<Rightarrow> string" where
  "businessTypeOf pf =
     (if profile_cnae pf = [] then ''loja''
      else
        (case js_split '' - '' [] (profile_cnae pf) of
           a # b # rest \<Rightarrow> (if b = [] then ''loja'' else b)
         | _ \<Rightarrow> ''loja''))"

text \<open>Lines 1562-1566.\<close>

definition imagePromptFallback :: "profile \<Rightarrow> draws \<Rightarrow> string" where
  "imagePromptFallback pf d =
     (let tod = randomTimeOfDay d;
          city = (if profile_city pf = [] then ''Brasil'' else profile_city pf);
          businessType = businessTypeOf pf;
          businessContext =
            (if js_includes businessType ''instrumento''
               then '', ao fundo viol'' @ [CHR 0xF5] @ ''es e instrumentos musicais''
             else [])
      in tod @ '', interior de uma '' @ businessType @ '' brasileira moderna, ilumina''
         @ [CHR 0xE7] @ [CHR 0xE3] @ ''o natural, ao fundo produtos e clientes''
         @ businessContext @ '', sem letreiros vis'' @ [CHR 0xED]
         @ ''veis. Uma pessoa brasileira propriet'' @ [CHR 0xE1] @ ''ria, '' @ randomEthnicity d
         @ '', '' @ city @ '', '' @ randomIdleAction d
         @ ''. Foto estilo selfie, perspectiva de primeira pessoa, '' @ [CHR 0xE2]
         @ ''ngulo de selfie, sem c'' @ [CHR 0xE2] @ ''mera vis'' @ [CHR 0xED] @ ''vel.'')"

text \<open>Lines 1576-1585.\<close>

definition fallbackMessage :: "string \<Rightarrow> string \<Rightarrow> string \<Rightarrow> string" where
  "fallbackMessage businessType city product =
     (if js_includes businessType ''instrumento'' \<or> js_includes businessType (''m'' @ [CHR 0xFA] @ ''sica'')
        then ''Ia'' @ [CHR 0xED] @ '' pessoal! Aqui na minha loja de instrumentos em '' @ city
             @ '', '' @ product @ '' organizou todo meu estoque! Agora sei exatamente qual viol''
             @ [CHR 0xE3] @ ''o tenho!''
      else if js_includes businessType ''padaria''
        then ''Bom dia! '' @ product @ '' transformou minha padaria em '' @ city
            @ ''! Agora controlo p'' @ [CHR 0xE3] @ ''es, doces, tudo digitalizado!''
      else if js_includes businessType (''farm'' @ [CHR 0xE1] @ ''cia'')
        then ''Oi gente! '' @ product @ '' organizou toda minha farm'' @ [CHR 0xE1] @ ''cia em ''
            @ city @ ''! Controle de rem'' @ [CHR 0xE9] @ ''dios nunca foi t'' @ [CHR 0xE3]
            @ ''o f'' @ [CHR 0xE1] @ ''cil!''
      else ''Ia'' @ [CHR 0xED] @ '' pessoal! Aqui em '' @ city @ '', '' @ product
            @ '' triplicou meu faturamento! Neg'' @ [CHR 0xF3] @ ''cio que era dif'' @ [CHR 0xED]
            @ ''cil ficou super f'' @ [CHR 0xE1] @ ''cil!'')"

text \<open>Lines 1570-1590.\<close>

definition videoPromptFallback :: "profile \<Rightarrow> draws \<Rightarrow> string" where
  "videoPromptFallback pf d =
     (let tod = randomTimeOfDay d;
          city = (if profile_city pf = [] then ''sua cidade'' else profile_city pf);
          product = (if profile_productCallout pf = [] then ''o Dinn'' else profile_productCallout pf);
          businessType = businessTypeOf pf;
          businessContext =
            (if js_includes businessType ''instrumento''
               then '', ao fundo viol'' @ [CHR 0xF5] @ ''es e instrumentos musicais''
             else []);
          fallbackMessage = fallbackMessage businessType city product
      in tod @ '', interior de uma '' @ businessType @ '' brasileira moderna, ilumina''
         @ [CHR 0xE7] @ [CHR 0xE3] @ ''o natural, ao fundo produtos e clientes''
         @ businessContext @ '', sem letreiros vis'' @ [CHR 0xED]
         @ ''veis. Uma pessoa brasileira propriet'' @ [CHR 0xE1] @ ''ria, '' @ randomEthnicity d
         @ '', '' @ city @ '', '' @ randomIdleAction d
         @ ''. Foto estilo selfie, perspectiva de primeira pessoa, '' @ [CHR 0xE2]
         @ ''ngulo de selfie, sem c'' @ [CHR 0xE2] @ ''mera vis'' @ [CHR 0xED] @ ''vel. Com a c''
         @ [CHR 0xE2] @ ''mera Selfie VLOG, pr'' @ [CHR 0xF3] @ ''xima ao rosto. C'' @ [CHR 0xE2]
         @ ''mera subjetiva, POV.'' @ [CHR 0x0A] @ [CHR 0x0A] @ ''fala da pessoa: '' @ [CHR 0x22]
         @ fallbackMessage @ [CHR 0x22] @ safeBRollText d)"

text \<open>Assignment \<open>json.key = v\<close> on the decoded response object.\<close>

fun set_prop :: "string \<Rightarrow> json \<Rightarrow> (string \<times> json) list \<Rightarrow> (string \<times> json) list" where
  "set_prop key v [] = [(key, v)]"
| "set_prop key v ((k, old) # kvs) =
     (if k = key then (key, v) # kvs else (k, old) # set_prop key v kvs)"

text \<open>
  Lines 1560-1605: the decoded response object \<open>json\<close> after the four tests.
\<close>

definition supplyFallbacks :: "profile \<Rightarrow> draws \<Rightarrow> (string \<times> json) list \<Rightarrow> (string \<times> json) list" where
  "supplyFallbacks pf d json =
     (let j1 = (if \<not> truthy (map_of json ''image_prompt'')
                  then set_prop ''image_prompt'' (JStr (imagePromptFallback pf d)) json
                else json);
          j2 = (if \<not> truthy (map_of j1 ''video_prompt'')
                  then set_prop ''video_prompt'' (JStr (videoPromptFallback pf d)) j1
                else j1);
          j3 = (if \<not> truthy (map_of j2 ''overlay_text'')
                  then set_prop ''overlay_text'' (JStr (''Tap to Pay'' @ [CHR 0x0A] @ ''no iPhone'')) j2
                else j2);
          j4 = (if \<not> truthy (map_of j3 ''button_text'')
                  then set_prop ''button_text'' (JStr (''Come'' @ [CHR 0xE7] @ ''ar a usar'')) j3
                else j3)
      in j4)"

text \<open>
  The word characters of a regular expression, and the replacement of every match of
  \<open>/\bword\b/g\<close>: \<open>prev\<close> says whether the character before the current position is a
  word character.
\<close>

definition is_word_char :: "char \<Rightarrow> bool" where
  "is_word_char c =
     (c \<in> set (''abcdefghijklmnopqrstuvwxyz'' @ ''ABCDEFGHIJKLMNOPQRSTUVWXYZ'' @ ''0123456789_''))"

function replace_word :: "string \<Rightarrow> string \<Rightarrow> bool \<Rightarrow> string \<Rightarrow> string" where
  "replace_word w new prev [] = []"
| "replace_word w new prev (c # cs) =
     (if w \<noteq> [] \<and> \<not> prev \<and> take (length w) (c # cs) = w \<and>
         (case drop (length w) (c # cs) of [] \<Rightarrow> True | x # xs \<Rightarrow> \<not> is_word_char x)
        then new @ replace_word w new True (drop (length w) (c # cs))
      else c # replace_word w new (is_word_char c) cs)"
  by pat_completeness auto
termination
  by (relation "measure (\<lambda>(w, new, prev, s). length s)") auto

text \<open>Lines 1613-1615.\<close>

definition improvePronunciation :: "string \<Rightarrow> string" where
  "improvePronunciation video_prompt =
     replace_word ''InfinitePay'' (''Infinitip'' @ [CHR 0xEA] @ ''i'') False
       (replace_word ''JIM'' ''Din'' False video_prompt)"

text \<open>Lines 1619-1627.\<close>

definition voice_metadata :: "profile \<Rightarrow> json" where
  "voice_metadata pf =
     (let product = (if profile_productCallout pf = [] then ''o Dinn'' else profile_productCallout pf)
      in JObj
           [(''text'', JStr (''Com '' @ product @ '', consigo entender melhor as vendas e facilitar os pagamentos digitais para os meus clientes!'')),
            (''voice_id'', JStr ''Wise_Woman''),
            (''emotion'', JStr ''happy''),
            (''speed'', JNum 1.5),
            (''pitch'', JNum 0),
            (''language_boost'', JStr ''Portuguese''),
            (''english_normalization'', JBool False)])"

text \<open>
  The test of line 1318 inside \<open>getBusinessSpecificMessage\<close>,
  \<open>cnae ? cnae.split(' - ')[1]?.toLowerCase() : ''\<close>: for a non-empty \<open>cnae\<close>
  without the separator the value is \<open>undefined\<close>, and line 1320 throws on it.
\<close>

definition cnae_has_type :: "profile \<Rightarrow> bool" where
  "cnae_has_type pf =
     (profile_cnae pf = [] \<or> 2 \<le> length (js_split '' - '' [] (profile_cnae pf)))"

text \<open>
  \<open>callOpenAIForPrompts\<close>, lines 1305-1637, as a function of the profile, the random
  choices and the decoded answer of the language model (\<open>Throws\<close> when the request or
  the decoding fails). The answer is taken to be an object, given by its properties, as
  the \<open>response_format\<close> of line 1513 asks; other JSON values are not modelled.
  Every error is caught at line 1632 and the function
  returns \<open>null\<close> (\<open>None\<close>): the error of line 1320, a failed request, and the
  \<open>replace\<close> of line 1613 on a truthy \<open>video_prompt\<close> that is not a string.
\<close>

definition callOpenAIForPrompts ::
  "profile \<Rightarrow> draws \<Rightarrow> (string \<times> json) list outcome \<Rightarrow> (string \<times> json) list option" where
  "callOpenAIForPrompts pf d reply =
     (if \<not> cnae_has_type pf then None
      else case reply of
        Throws m \<Rightarrow> None
      | Returns json \<Rightarrow>
          (let j4 = supplyFallbacks pf d json;
               video_prompt = map_of j4 ''video_prompt''
           in if truthy video_prompt \<and> \<not> is_string video_prompt then None
              else
                (let j5 = (case video_prompt of
                             Some (JStr s) \<Rightarrow>
                               if s \<noteq> [] then set_prop ''video_prompt'' (JStr (improvePronunciation s)) j4
                               else j4
                           | _ \<Rightarrow> j4)
                 in Some (set_prop ''voice_metadata'' (voice_metadata pf) j5))))"


section \<open>Predicates and sample inputs used in the statements\<close>

text \<open>A status fetch that answers with a decoded envelope whose status is
  \<open>starting\<close> or \<open>processing\<close>.\<close>

definition nonterminal_fetch :: "fetch_response outcome \<Rightarrow> bool" where
  "nonterminal_fetch r =
     (case r of
        Throws m \<Rightarrow> False
      | Returns resp \<Rightarrow>
          (case resp_json resp of
             Throws m \<Rightarrow> False
           | Returns d \<Rightarrow>
               get_prop d ''status'' = Inr (Some (JStr ''starting'')) \<or>
               get_prop d ''status'' = Inr (Some (JStr ''processing''))))"

fun is_poll :: "event \<Rightarrow> bool" where
  "is_poll (PollStatus p) = True"
| "is_poll ev = False"

text \<open>The test of line 44 on the verified principal.\<close>

definition wrong_domain :: "user \<Rightarrow> bool" where
  "wrong_domain u = (case email u of None \<Rightarrow> True | Some em \<Rightarrow> \<not> endsWith em ''@cloudwalk.io'')"

text \<open>Sample collaborators and requests for the proxy.\<close>

definition cloudwalk_user :: auth_result where
  "cloudwalk_user = \<lparr>auth_user = Some \<lparr>email = Some ''ana@cloudwalk.io''\<rparr>, auth_error = False\<rparr>"

definition outsider :: auth_result where
  "outsider = \<lparr>auth_user = Some \<lparr>email = Some ''ana@example.com''\<rparr>, auth_error = False\<rparr>"

definition envelope :: "string \<Rightarrow> fetch_response" where
  "envelope st = \<lparr>resp_ok = True, resp_status = 200,
     resp_json = Returns (JObj [(''id'', JStr ''p1''), (''status'', JStr st)])\<rparr>"

definition example_env :: "auth_result \<Rightarrow> string \<Rightarrow> string \<Rightarrow> env" where
  "example_env who first later =
     \<lparr>getUser = (\<lambda>t. if t = ''tok'' then Returns who else Returns \<lparr>auth_user = None, auth_error = True\<rparr>),
      REPLICATE_API_TOKEN = Some ''r8'',
      submitFetch = (\<lambda>m i. Returns (envelope first)),
      pollFetch = (\<lambda>i. Returns (envelope later))\<rparr>"

definition example_request :: "string option \<Rightarrow> request" where
  "example_request h = \<lparr>req_method = ''POST'', req_authorization = h,
     req_json = Returns (JObj [(''model'', JStr ''bytedance/seedream-3''), (''input'', JObj [])])\<rparr>"

text \<open>
  A value that the checks of lines 1740-1749 let through: truthy, and parsed by the
  platform as a URL whose protocol is \<open>http:\<close> or \<open>https:\<close>.
\<close>

definition acceptable :: "browser \<Rightarrow> json \<Rightarrow> bool" where
  "acceptable e v =
     (truthy (Some v) \<and> (URL_protocol e v = Some ''http:'' \<or> URL_protocol e v = Some ''https:''))"

text \<open>The two errors that stand for an unusable output.\<close>

fun invalid_output :: "stage_error \<Rightarrow> bool" where
  "invalid_output NoUrlInResponse = True"
| "invalid_output (InvalidUrlFormat v) = True"
| "invalid_output err = False"

text \<open>The requests a run added to those already on the page.\<close>

definition new_calls :: "page \<Rightarrow> run \<Rightarrow> call list" where
  "new_calls p r = drop (length (calls p)) (calls (run_page r))"

text \<open>One of the four tests of lines 1561-1605, used to state them one at a time.\<close>

definition fill :: "string \<Rightarrow> json \<Rightarrow> (string \<times> json) list \<Rightarrow> (string \<times> json) list" where
  "fill key v json = (if \<not> truthy (map_of json key) then set_prop key v json else json)"

text \<open>
  Sample collaborators for the page script. \<open>sample_protocol\<close> is a stand-in for the
  platform's URL parser on the sample values only.
\<close>

definition success_reply :: "json \<Rightarrow> reply" where
  "success_reply result =
     \<lparr>reply_ok = True, reply_content_type = Some ''application/json'', reply_json = Returns result\<rparr>"

definition sample_protocol :: "json \<Rightarrow> string option" where
  "sample_protocol v =
     (case v of
        JStr s \<Rightarrow>
          if take 8 s = ''https://'' then Some ''https:''
          else if take 7 s = ''http://'' then Some ''http:''
          else None
      | _ \<Rightarrow> None)"

definition succeeded_with :: "json \<Rightarrow> json" where
  "succeeded_with output = JObj [(''status'', JStr ''succeeded''), (''output'', output)]"

definition sample_fetch :: "call \<Rightarrow> reply outcome" where
  "sample_fetch c =
     (if is_edit_call c then Returns (success_reply (succeeded_with (JStr ''https://x/edited.png'')))
      else if is_video_call c then Returns (success_reply (succeeded_with (JArr [JStr ''https://x/video.mp4''])))
      else Returns (success_reply (succeeded_with (JArr [JStr ''https://x/image.png'']))))"

definition sample_browser :: browser where
  "sample_browser =
     \<lparr>signedIn = True, requireAuth = True, supabaseConfig = True,
      getAuthToken = Returns (Some ''jwt''), currentMasterSeed = None,
      freshSeed = (\<lambda>k. Crypto 0), fetch = sample_fetch, URL_protocol = sample_protocol,
      seededitContainer = True, seedanceContainer = True\<rparr>"

definition browser_replying :: "json \<Rightarrow> browser" where
  "browser_replying result = sample_browser\<lparr>fetch := (\<lambda>c. Returns (success_reply result))\<rparr>"

definition sample_page :: page where
  "sample_page = \<lparr>calls = [], imageStatus = Waiting, seededitStatus = Some Waiting,
                   seedanceStatus = Some Waiting\<rparr>"

definition sample_prompts :: json where
  "sample_prompts = JObj [(''image_prompt'', JStr ''img''), (''video_prompt'', JStr ''vid'')]"

definition sample_config :: "bool \<Rightarrow> bool \<Rightarrow> config" where
  "sample_config withImage withEdit =
     \<lparr>enableImage = withImage, enableSeededit = withEdit, enableSeedance = True, useStartFrame = Some True\<rparr>"

definition sample_profile :: profile where
  "sample_profile = \<lparr>profile_city = ''Recife'', profile_cnae = ''4721-1/02 - Padaria'',
                      profile_productCallout = ''JIM assistente virtual no app''\<rparr>"

definition sample_draws :: "nat \<Rightarrow> draws" where
  "sample_draws i = \<lparr>timeIndex = i, ethnicityIndex = 4, idleIndex = 2, safeBRollText = []\<rparr>"

section \<open>The proxy: polling\<close>

lemma poll_loop_step:
  assumes "i < 60" and "nonterminal_fetch (pollFetch e i)"
  shows "poll_loop e pid i tr = poll_loop e pid (i + 1) (tr @ [Sleep 2000, PollStatus pid])"
  using assms
  by (subst poll_loop.simps) (auto simp: nonterminal_fetch_def Let_def split: outcome.splits sum.splits)

lemma poll_loop_end:
  "poll_loop e pid 60 tr = (json_response 408 (error_obj ''Prediction timed out''), tr)"
  by (subst poll_loop.simps) simp

lemma poll_loop_all_nonterminal:
  assumes "\<forall>i<60. nonterminal_fetch (pollFetch e i)"
  shows "n \<le> 60 \<Longrightarrow> poll_loop e pid (60 - n) tr =
           (json_response 408 (error_obj ''Prediction timed out''),
            tr @ concat (replicate n [Sleep 2000, PollStatus pid]))"
proof (induction n arbitrary: tr)
  case 0
  show ?case by (simp add: poll_loop_end)
next
  case (Suc n)
  have lt: "60 - Suc n < 60" using Suc.prems by simp
  have nx: "60 - Suc n + 1 = 60 - n" using Suc.prems by simp
  have "poll_loop e pid (60 - Suc n) tr = poll_loop e pid (60 - n) (tr @ [Sleep 2000, PollStatus pid])"
    using poll_loop_step[OF lt, of e pid tr] assms lt nx by simp
  also have "\<dots> = (json_response 408 (error_obj ''Prediction timed out''),
            (tr @ [Sleep 2000, PollStatus pid]) @ concat (replicate n [Sleep 2000, PollStatus pid]))"
    using Suc.IH[of "tr @ [Sleep 2000, PollStatus pid]"] Suc.prems by simp
  finally show ?case by simp
qed

lemma count_polls: "length (filter is_poll (concat (replicate n [Sleep d, PollStatus pid]))) = n"
  by (induction n) auto

text \<open>Whatever the provider answers, the loop returns after at most 60 status fetches.\<close>

lemma poll_loop_bounded:
  "length (filter is_poll (snd (poll_loop e pid i tr))) \<le> length (filter is_poll tr) + (60 - i)"
proof (induction e pid i tr rule: poll_loop.induct)
  case (1 e pid i tr)
  let ?tr = "tr @ [Sleep 2000, PollStatus pid]"
  show ?case
  proof (cases "i < 60")
    case False
    then show ?thesis by (subst poll_loop.simps) simp
  next
    case True
    have stop: "length (filter is_poll ?tr) \<le> length (filter is_poll tr) + (60 - i)"
      using True by simp
    show ?thesis
    proof (cases "\<exists>r. poll_loop e pid i tr = (r, ?tr)")
      case True
      then show ?thesis using stop by auto
    next
      case False
      then obtain x d st where x: "pollFetch e i = Returns x" and d: "resp_json x = Returns d"
        and st: "get_prop d ''status'' = Inr st" and ns: "st \<noteq> Some (JStr ''succeeded'')"
        and nf: "\<not> (st = Some (JStr ''failed'') \<or> st = Some (JStr ''canceled''))"
        using True
        by (subst (asm) poll_loop.simps) (auto simp: Let_def split: outcome.splits sum.splits if_splits)
      have eq: "poll_loop e pid i tr = poll_loop e pid (i + 1) ?tr"
        using True x d st ns nf by (subst poll_loop.simps) (simp add: Let_def)
      have "length (filter is_poll (snd (poll_loop e pid (i + 1) ?tr)))
              \<le> length (filter is_poll ?tr) + (60 - (i + 1))"
        using "1.IH"[OF True refl x d st ns nf] .
      then show ?thesis using True unfolding eq by simp
    qed
  qed
qed

text \<open>
  C1. If every status fetch answers \<open>starting\<close> or \<open>processing\<close>, the loop makes
  exactly 60 status fetches, each one right after a wait of 2000 ms, and then returns
  the time-out response with status 408, which differs from every response for a failure
  reported by the provider (status 500 with the provider's envelope). The loop is a total
  function: it always returns.
\<close>

theorem C1_poll_timeout:
  assumes "\<forall>i<60. nonterminal_fetch (pollFetch e i)"
  shows "poll_loop e pid 0 tr =
           (json_response 408 (error_obj ''Prediction timed out''),
            tr @ concat (replicate 60 [Sleep 2000, PollStatus pid]))
       \<and> length (filter is_poll (snd (poll_loop e pid 0 []))) = 60
       \<and> status (fst (poll_loop e pid 0 tr)) = 408
       \<and> (\<forall>d. fst (poll_loop e pid 0 tr) \<noteq> json_response 500 d)"
proof -
  have eq: "poll_loop e pid 0 tr' =
           (json_response 408 (error_obj ''Prediction timed out''),
            tr' @ concat (replicate 60 [Sleep 2000, PollStatus pid]))" for tr'
    using poll_loop_all_nonterminal[OF assms, of 60 pid tr'] by simp
  show ?thesis unfolding eq by (simp add: json_response_def count_polls)
qed

theorem C1_poll_timeout_witness:
  "nonterminal_fetch (pollFetch (example_env cloudwalk_user ''starting'' ''processing'') 0)
   \<and> nonterminal_fetch (pollFetch (example_env cloudwalk_user ''starting'' ''processing'') 59)
   \<and> poll_loop (example_env cloudwalk_user ''starting'' ''processing'') (Some (JStr ''p1'')) 0 [] =
       (json_response 408 (error_obj ''Prediction timed out''),
        concat (replicate 60 [Sleep 2000, PollStatus (Some (JStr ''p1''))]))"
proof -
  have h: "\<forall>i<60. nonterminal_fetch (pollFetch (example_env cloudwalk_user ''starting'' ''processing'') i)"
    by (simp add: nonterminal_fetch_def example_env_def envelope_def)
  show ?thesis using h C1_poll_timeout[OF h, of "Some (JStr ''p1'')" "[]"] by simp
qed

section \<open>The proxy: the authorisation gate\<close>

text \<open>
  C3. For a request that is not a CORS preflight: a missing (or empty) authorization
  header gives status 500 and no outbound call at all; a credential for which the
  identity provider reports an error or no user gives status 401; a verified principal
  whose email does not end in \<open>@cloudwalk.io\<close> gives status 403 with the access-denied
  body. In the last two cases no submission and no status fetch reaches the generation
  provider. The three statuses are pairwise different.
\<close>

theorem C3_auth_gate:
  assumes "req_method req \<noteq> ''OPTIONS''"
  shows "(req_authorization req = None \<or> req_authorization req = Some [] \<longrightarrow>
            status (fst (serve e req)) = 500 \<and> snd (serve e req) = [])
       \<and> (\<forall>h r. req_authorization req = Some h \<and> h \<noteq> [] \<and>
              getUser e (replace ''Bearer '' [] h) = Returns r \<and>
              (auth_error r \<or> auth_user r = None) \<longrightarrow>
            status (fst (serve e req)) = 401 \<and>
            \<not> (\<exists>ev \<in> set (snd (serve e req)). is_generation_call ev))
       \<and> (\<forall>h r u. req_authorization req = Some h \<and> h \<noteq> [] \<and>
              getUser e (replace ''Bearer '' [] h) = Returns r \<and>
              \<not> auth_error r \<and> auth_user r = Some u \<and> wrong_domain u \<longrightarrow>
            fst (serve e req) = json_response 403 (error_obj ''Access denied - Cloudwalk employees only'') \<and>
            status (fst (serve e req)) = 403 \<and>
            \<not> (\<exists>ev \<in> set (snd (serve e req)). is_generation_call ev))"
  using assms
  by (auto simp: serve_def caught_def json_response_def wrong_domain_def Let_def
           split: option.splits)

theorem C3_auth_gate_witness:
  "status (fst (serve (example_env outsider ''starting'' ''processing'') (example_request None))) = 500
   \<and> status (fst (serve (example_env outsider ''starting'' ''processing'') (example_request (Some ''Bearer bad'')))) = 401
   \<and> fst (serve (example_env outsider ''starting'' ''processing'') (example_request (Some ''Bearer tok'')))
       = json_response 403 (error_obj ''Access denied - Cloudwalk employees only'')
   \<and> \<not> (\<exists>ev \<in> set (snd (serve (example_env outsider ''starting'' ''processing'') (example_request (Some ''Bearer tok'')))).
           is_generation_call ev)"
proof -
  let ?e = "example_env outsider ''starting'' ''processing''"
  have m: "req_method (example_request h) \<noteq> ''OPTIONS''" for h
    by (simp add: example_request_def)
  have a: "status (fst (serve ?e (example_request None))) = 500"
    using C3_auth_gate[OF m, of None ?e] by (simp add: example_request_def)
  have b: "status (fst (serve ?e (example_request (Some ''Bearer bad'')))) = 401"
    using C3_auth_gate[OF m, of "Some ''Bearer bad''" ?e]
    by (simp add: example_request_def example_env_def)
  have w: "wrong_domain \<lparr>email = Some ''ana@example.com''\<rparr>"
    by (simp add: wrong_domain_def endsWith_def)
  have c: "fst (serve ?e (example_request (Some ''Bearer tok'')))
             = json_response 403 (error_obj ''Access denied - Cloudwalk employees only'')
           \<and> \<not> (\<exists>ev \<in> set (snd (serve ?e (example_request (Some ''Bearer tok'')))). is_generation_call ev)"
    using C3_auth_gate[OF m, of "Some ''Bearer tok''" ?e] w
    by (simp add: example_request_def example_env_def outsider_def)
  show ?thesis using a b c by blast
qed

section \<open>The proxy: a submission that is answered at once\<close>

lemma get_prop_not_null: "get_prop d k = Inr x \<Longrightarrow> \<exists>y. get_prop d k' = Inr y"
  by (cases d) auto


lemma serve_authorised:
  assumes "req_method req \<noteq> ''OPTIONS''"
    and "req_authorization req = Some h" and "h \<noteq> []"
    and "getUser e (replace ''Bearer '' [] h) = Returns r"
    and "auth_user r = Some u" and "\<not> auth_error r"
    and "email u = Some em" and "endsWith em ''@cloudwalk.io''"
  shows "serve e req = proxy e req [AuthLookup (replace ''Bearer '' [] h)]"
  using assms by (simp add: serve_def Let_def)

lemma proxy_immediate:
  assumes "REPLICATE_API_TOKEN e = Some key" and "key \<noteq> []"
    and "req_json req = Returns requestBody"
    and "get_prop requestBody ''model'' = Inr model"
    and "get_prop requestBody ''input'' = Inr input"
    and "submitFetch e model input = Returns resp"
    and "resp_ok resp"
    and "resp_json resp = Returns responseData"
    and "get_prop responseData ''status'' = Inr st"
    and "st \<noteq> Some (JStr ''starting'')" and "st \<noteq> Some (JStr ''processing'')"
  shows "proxy e req tr = (json_response 200 responseData, tr @ [Submit model input])"
proof -
  obtain pid where pid: "get_prop responseData ''id'' = Inr pid"
    using get_prop_not_null[OF assms(9)] by blast
  show ?thesis using assms pid by (simp add: proxy_def Let_def)
qed

lemma poll_loop_failed:
  assumes "k < 60" and "pollFetch e k = Returns resp" and "resp_json resp = Returns d"
    and "get_prop d ''status'' = Inr st"
    and "st = Some (JStr ''failed'') \<or> st = Some (JStr ''canceled'')"
  shows "poll_loop e pid k tr = (json_response 500 d, tr @ [Sleep 2000, PollStatus pid])"
  using assms by (subst poll_loop.simps) (auto simp: Let_def)

text \<open>
  C10. For an authorised request whose submission the provider answers with a success
  transport status and an envelope whose \<open>status\<close> is neither \<open>starting\<close> nor
  \<open>processing\<close>, the proxy returns that envelope with status 200, and the only calls
  made are the identity lookup and the submission: no wait, no status fetch. This
  includes the statuses \<open>failed\<close> and \<open>canceled\<close>; the same envelope read by a status
  fetch inside the polling loop is returned with status 500.
\<close>

theorem C10_immediate:
  assumes "req_method req \<noteq> ''OPTIONS''"
    and "req_authorization req = Some h" and "h \<noteq> []"
    and "getUser e (replace ''Bearer '' [] h) = Returns r"
    and "auth_user r = Some u" and "\<not> auth_error r"
    and "email u = Some em" and "endsWith em ''@cloudwalk.io''"
    and "REPLICATE_API_TOKEN e = Some key" and "key \<noteq> []"
    and "req_json req = Returns requestBody"
    and "get_prop requestBody ''model'' = Inr model"
    and "get_prop requestBody ''input'' = Inr input"
    and "submitFetch e model input = Returns resp"
    and "resp_ok resp"
    and "resp_json resp = Returns responseData"
    and "get_prop responseData ''status'' = Inr st"
    and "st \<noteq> Some (JStr ''starting'')" and "st \<noteq> Some (JStr ''processing'')"
  shows "serve e req =
           (json_response 200 responseData,
            [AuthLookup (replace ''Bearer '' [] h), Submit model input])
       \<and> status (fst (serve e req)) = 200
       \<and> (\<forall>e' pid k tr. k < 60 \<and> pollFetch e' k = Returns resp \<and>
             (st = Some (JStr ''failed'') \<or> st = Some (JStr ''canceled'')) \<longrightarrow>
             fst (poll_loop e' pid k tr) = json_response 500 responseData \<and>
             status (fst (poll_loop e' pid k tr)) = 500)"
proof -
  have a: "serve e req =
           (json_response 200 responseData,
            [AuthLookup (replace ''Bearer '' [] h), Submit model input])"
    using serve_authorised[OF assms(1-8)] proxy_immediate[OF assms(9-19)] by simp
  have b: "status (fst (serve e req)) = 200"
    unfolding a by (simp add: json_response_def)
  have c: "fst (poll_loop e' pid k tr) = json_response 500 responseData \<and>
           status (fst (poll_loop e' pid k tr)) = 500"
    if "k < 60" "pollFetch e' k = Returns resp"
       "st = Some (JStr ''failed'') \<or> st = Some (JStr ''canceled'')"
    for e' pid k tr
    using poll_loop_failed[OF that(1,2) assms(16,17) that(3)] by (simp add: json_response_def)
  show ?thesis using a b c by blast
qed

theorem C10_immediate_witness:
  "serve (example_env cloudwalk_user ''failed'' ''failed'') (example_request (Some ''Bearer tok'')) =
     (json_response 200 (JObj [(''id'', JStr ''p1''), (''status'', JStr ''failed'')]),
      [AuthLookup ''tok'', Submit (Some (JStr ''bytedance/seedream-3'')) (Some (JObj []))])
   \<and> fst (poll_loop (example_env cloudwalk_user ''processing'' ''failed'') (Some (JStr ''p1'')) 0 []) =
       json_response 500 (JObj [(''id'', JStr ''p1''), (''status'', JStr ''failed'')])"
proof -
  let ?e = "example_env cloudwalk_user ''failed'' ''failed''"
  let ?req = "example_request (Some ''Bearer tok'')"
  let ?d = "JObj [(''id'', JStr ''p1''), (''status'', JStr ''failed'')]"
  have tok: "replace ''Bearer '' [] ''Bearer tok'' = ''tok''" by simp
  have h1: "req_method ?req \<noteq> ''OPTIONS''" by (simp add: example_request_def)
  have h2: "req_authorization ?req = Some ''Bearer tok''" by (simp add: example_request_def)
  have h3: "''Bearer tok'' \<noteq> []" by simp
  have h4: "getUser ?e (replace ''Bearer '' [] ''Bearer tok'') = Returns cloudwalk_user"
    by (simp add: example_env_def)
  have h5: "auth_user cloudwalk_user = Some \<lparr>email = Some ''ana@cloudwalk.io''\<rparr>"
    by (simp add: cloudwalk_user_def)
  have h6: "\<not> auth_error cloudwalk_user" by (simp add: cloudwalk_user_def)
  have h7: "email \<lparr>email = Some ''ana@cloudwalk.io''\<rparr> = Some ''ana@cloudwalk.io''" by simp
  have h8: "endsWith ''ana@cloudwalk.io'' ''@cloudwalk.io''" by (simp add: endsWith_def)
  have h9: "REPLICATE_API_TOKEN ?e = Some ''r8''" by (simp add: example_env_def)
  have h10: "''r8'' \<noteq> []" by simp
  have h11: "req_json ?req = Returns (JObj [(''model'', JStr ''bytedance/seedream-3''), (''input'', JObj [])])"
    by (simp add: example_request_def)
  have h12: "get_prop (JObj [(''model'', JStr ''bytedance/seedream-3''), (''input'', JObj [])]) ''model''
               = Inr (Some (JStr ''bytedance/seedream-3''))" by simp
  have h13: "get_prop (JObj [(''model'', JStr ''bytedance/seedream-3''), (''input'', JObj [])]) ''input''
               = Inr (Some (JObj []))" by simp
  have h14: "submitFetch ?e (Some (JStr ''bytedance/seedream-3'')) (Some (JObj [])) = Returns (envelope ''failed'')"
    by (simp add: example_env_def)
  have h15: "resp_ok (envelope ''failed'')" by (simp add: envelope_def)
  have h16: "resp_json (envelope ''failed'') = Returns ?d" by (simp add: envelope_def)
  have h17: "get_prop ?d ''status'' = Inr (Some (JStr ''failed''))" by simp
  have h18: "Some (JStr ''failed'') \<noteq> Some (JStr ''starting'')" by simp
  have h19: "Some (JStr ''failed'') \<noteq> Some (JStr ''processing'')" by simp
  note main = C10_immediate[OF h1 h2 h3 h4 h5 h6 h7 h8 h9 h10 h11 h12 h13 h14 h15 h16 h17 h18 h19]
  have p: "pollFetch (example_env cloudwalk_user ''processing'' ''failed'') 0 = Returns (envelope ''failed'')"
    by (simp add: example_env_def)
  from main have "serve ?e ?req = (json_response 200 ?d,
      [AuthLookup (replace ''Bearer '' [] ''Bearer tok''), Submit (Some (JStr ''bytedance/seedream-3'')) (Some (JObj []))])"
    by blast
  moreover from main p have "fst (poll_loop (example_env cloudwalk_user ''processing'' ''failed'') (Some (JStr ''p1'')) 0 []) =
       json_response 500 ?d" by simp
  ultimately show ?thesis by (simp only: tok) 
qed



section \<open>Seeds\<close>

lemma bit_length_le_iff: "bit_length n \<le> k \<longleftrightarrow> n < 2 ^ k"
proof (induction n arbitrary: k rule: bit_length.induct)
  case (1 n)
  show ?case
  proof (cases "n = 0")
    case True
    then show ?thesis by (simp add: bit_length.simps)
  next
    case False
    have bl: "bit_length n = Suc (bit_length (n div 2))"
      using False by (subst bit_length.simps) simp
    show ?thesis
    proof (cases k)
      case 0
      then show ?thesis using False bl by simp
    next
      case (Suc k')
      have "bit_length n \<le> k \<longleftrightarrow> bit_length (n div 2) \<le> k'"
        using bl Suc by simp
      also have "\<dots> \<longleftrightarrow> n div 2 < 2 ^ k'"
        using "1.IH"[OF False, of k'] .
      also have "\<dots> \<longleftrightarrow> n < 2 ^ k"
        using Suc by (simp add: less_mult_imp_div_less div_less_iff_less_mult mult.commute)
      finally show ?thesis .
    qed
  qed
qed

lemma round_to_double_exact:
  assumes "\<bar>x\<bar> \<le> 2 ^ 53"
  shows "round_to_double x = Num x"
proof (cases "\<bar>x\<bar> < 2 ^ 53")
  case True
  then have "nat \<bar>x\<bar> < 2 ^ 53" by (simp add: nat_less_iff)
  then have "bit_length (nat \<bar>x\<bar>) \<le> 53" by (simp add: bit_length_le_iff)
  then show ?thesis by (simp add: round_to_double_def Let_def)
next
  case False
  then have ax: "\<bar>x\<bar> = 2 ^ 53" using assms by simp
  then have n: "nat \<bar>x\<bar> = 9007199254740992" by simp
  have k: "bit_length (9007199254740992::nat) = 54" by (simp add: bit_length.simps)
  have "x = 9007199254740992 \<or> x = - 9007199254740992" using ax by (simp add: abs_if split: if_splits)
  then show ?thesis
    by (auto simp: round_to_double_def Let_def k)
qed

lemma generateSeedVariation_exact:
  assumes "\<bar>m + k\<bar> * 9973 \<le> 2 ^ 53"
  shows "generateSeedVariation (Num m) (Num k) = Num (\<bar>(m + k) * 9973\<bar> mod 1000000)"
proof -
  have "\<bar>m + k\<bar> \<le> \<bar>m + k\<bar> * 9973" by simp
  then have s: "\<bar>m + k\<bar> \<le> 2 ^ 53" using assms by (rule order_trans)
  have p: "\<bar>(m + k) * 9973\<bar> \<le> 2 ^ 53" using assms by (simp only: abs_mult abs_numeral)
  have a: "js_add (Num m) (Num k) = Num (m + k)"
    using round_to_double_exact[OF s] by simp
  have b: "js_mul (Num (m + k)) (Num 9973) = Num ((m + k) * 9973)"
    using round_to_double_exact[OF p] by simp
  have sg: "sgn \<bar>(m + k) * 9973\<bar> * (\<bar>(m + k) * 9973\<bar> mod 1000000) = \<bar>(m + k) * 9973\<bar> mod 1000000"
    by (cases "(m + k) * 9973 = 0") (simp_all add: sgn_if)
  show ?thesis
    unfolding generateSeedVariation_def Let_def a b using sg by simp
qed

text \<open>
  C8, as amended. For integers \<open>m\<close> and \<open>k\<close> with \<open>\<bar>m + k\<bar> * 9973 \<le> 2 ^ 53\<close>, where
  the sum and the product are exact in JavaScript numbers, \<open>generateSeedVariation\<close>
  returns \<open>\<bar>(m + k) * 9973\<bar> mod 1000000\<close>, a value in \<open>[0, 1000000)\<close>. The model is a
  total function without state.
\<close>

theorem C8_seed_formula:
  assumes "\<bar>m + k\<bar> * 9973 \<le> 2 ^ 53"
  shows "generateSeedVariation (Num m) (Num k) = Num (\<bar>(m + k) * 9973\<bar> mod 1000000)
       \<and> 0 \<le> \<bar>(m + k) * 9973\<bar> mod 1000000
       \<and> \<bar>(m + k) * 9973\<bar> mod 1000000 < (1000000::int)"
  using generateSeedVariation_exact[OF assms] by simp

theorem C8_seed_formula_witness:
  "generateSeedVariation (Num 123456) (Num 1) = Num 236661"
  using C8_seed_formula[of 123456 1] by simp

text \<open>
  C8 as stated, for all integer inputs, fails: at master seed \<open>2 ^ 53\<close> and index 1 the
  sum is rounded back to \<open>2 ^ 53\<close>, and the result is 913216, not the 923189 of the
  formula.
\<close>

theorem C8_large_inputs_counterexample:
  "generateSeedVariation (Num 9007199254740992) (Num 1)
     \<noteq> Num (\<bar>(9007199254740992 + 1) * 9973\<bar> mod 1000000)"
  by (simp add: generateSeedVariation_def round_to_double_def bit_length.simps Let_def)

lemma seed_large_value: "generateSeedVariation (Num 9007199254740992) (Num 1) = Num 913216"
  by (simp add: generateSeedVariation_def round_to_double_def bit_length.simps Let_def)

text \<open>
  For a stored master seed in \<open>[1, 1000000)\<close> the stage seed does not depend on the
  randomness available to the stage.
\<close>

lemma stageSeed_stored:
  assumes "0 < m" and "m < 1000000" and "k = 1 \<or> k = 2 \<or> k = 3"
  shows "stageSeed (Some (Num m)) fresh k = Num (((m + k) * 9973) mod 1000000)"
proof -
  have pos: "0 \<le> m + k" and small: "m + k \<le> 1000003" using assms by auto
  have "\<bar>m + k\<bar> * 9973 \<le> 1000003 * 9973" using pos small by simp
  then have "\<bar>m + k\<bar> * 9973 \<le> 2 ^ 53" by simp
  then have "generateSeedVariation (Num m) (Num k) = Num (\<bar>(m + k) * 9973\<bar> mod 1000000)"
    by (rule generateSeedVariation_exact)
  moreover have "\<bar>(m + k) * 9973\<bar> = (m + k) * 9973" using pos by simp
  ultimately show ?thesis using assms(1) by (simp add: stageSeed_def)
qed

text \<open>
  C2. The stored master seed 0 (drawn, for instance, when \<open>crypto.getRandomValues\<close>
  delivers the word 0) is falsy, so each stage draws a fresh seed instead of using it:
  two runs with master seed 0 derive the image seeds 59838 and 79784 when their draws
  are 5 and 7.
\<close>

theorem C2_zero_master_seed:
  "generateBetterRandomSeed (Crypto 0) = Num 0
   \<and> stageSeed (Some (generateBetterRandomSeed (Crypto 0))) (Crypto 5) 1 = Num 59838
   \<and> stageSeed (Some (generateBetterRandomSeed (Crypto 0))) (Crypto 7) 1 = Num 79784"
  by (simp add: stageSeed_def generateSeedVariation_def round_to_double_def bit_length.simps Let_def)

section \<open>The result of one stage\<close>

lemma validateUrl_Inr:
  "validateUrl (URL_protocol e) x = Inr u \<longleftrightarrow> x = Some u \<and> acceptable e u"
  by (auto simp: validateUrl_def acceptable_def split: option.splits if_splits)

lemma validateUrl_Inl:
  "validateUrl (URL_protocol e) x = Inl err \<Longrightarrow> invalid_output err"
  by (auto simp: validateUrl_def split: option.splits if_splits)

lemma image_request_edge:
  assumes "useEdgeFunctions e" and "getAuthToken e = Returns (Some t)" and "t \<noteq> []"
    and "fetch e (image_edge_call e imagePrompt t) = Returns r"
    and "reply_ok r" and "reply_content_type r = Some ct" and "js_includes ct ''application/json''"
    and "reply_json r = Returns result" and "get_prop result ''output'' = Inr output"
  shows "image_request e imagePrompt =
           ([image_edge_call e imagePrompt t],
            case validateUrl (URL_protocol e) (extractUrl output) of
              Inl err \<Rightarrow> Inl err | Inr u \<Rightarrow> Inr (Some u))"
proof -
  obtain st where "get_prop result ''status'' = Inr st"
    using assms(9) by (cases result) auto
  then show ?thesis
    using assms by (simp add: image_request_def Let_def split: sum.splits)
qed

lemma generateImage_edge_ok:
  assumes "useEdgeFunctions e" and "getAuthToken e = Returns (Some t)" and "t \<noteq> []"
    and "fetch e (image_edge_call e imagePrompt t) = Returns r"
    and "reply_ok r" and "reply_content_type r = Some ct" and "js_includes ct ''application/json''"
    and "reply_json r = Returns result" and "get_prop result ''output'' = Inr output"
    and "extractUrl output = Some u" and "acceptable e u"
  shows "fst (generateImage e imagePrompt p) = Some u"
    and "imageStatus (snd (generateImage e imagePrompt p)) = Done"
proof -
  have "validateUrl (URL_protocol e) (extractUrl output) = Inr u"
    using assms(10,11) by (simp add: validateUrl_Inr)
  then show "fst (generateImage e imagePrompt p) = Some u"
    and "imageStatus (snd (generateImage e imagePrompt p)) = Done"
    using assms(11) by (auto simp: generateImage_def image_request_edge[OF assms(1-9)] acceptable_def)
qed

lemma seededit_request_edge:
  assumes "useEdgeFunctions e" and "getAuthToken e = Returns (Some t)" and "t \<noteq> []"
    and "fetch e (seededit_edge_call e imageUrl t) = Returns r"
    and "reply_ok r"
    and "reply_json r = Returns result" and "get_prop result ''output'' = Inr output"
  shows "seededit_request e imageUrl =
           ([seededit_edge_call e imageUrl t],
            case validateUrl (URL_protocol e) (extractUrl output) of
              Inl err \<Rightarrow> Inl err | Inr u \<Rightarrow> Inr (Some u))"
proof -
  obtain st where "get_prop result ''status'' = Inr st"
    using assms(7) by (cases result) auto
  then show ?thesis
    using assms by (simp add: seededit_request_def Let_def split: sum.splits)
qed

lemma generateSeededit_edge_ok:
  assumes "useEdgeFunctions e" and "getAuthToken e = Returns (Some t)" and "t \<noteq> []"
    and "fetch e (seededit_edge_call e imageUrl t) = Returns r"
    and "reply_ok r"
    and "reply_json r = Returns result" and "get_prop result ''output'' = Inr output"
    and "extractUrl output = Some u" and "acceptable e u" and "truthy imageUrl"
  shows "fst (generateSeededit e imageUrl p) = Some u"
proof -
  have "validateUrl (URL_protocol e) (extractUrl output) = Inr u"
    using assms(8,9) by (simp add: validateUrl_Inr)
  then show ?thesis
    using assms(9,10) by (auto simp: generateSeededit_def seededit_request_edge[OF assms(1-7)] acceptable_def)
qed

text \<open>
  C4. On the edge-function path, for a decoded success reply with output field
  \<open>output\<close>: a non-empty array yields its first element and a string yields itself,
  when that value is acceptable; whatever \<open>generateImage\<close> returns is acceptable
  (truthy, parsed, protocol \<open>http:\<close> or \<open>https:\<close>) and is the extracted candidate;
  and when the output is absent, an empty array, or its candidate is not acceptable, the
  request ends in one of the two invalid-output errors, \<open>generateImage\<close> returns
  \<open>null\<close> and the status line reads "Image generation failed.".
\<close>

theorem C4_normalizer:
  assumes "useEdgeFunctions e" and "getAuthToken e = Returns (Some t)" and "t \<noteq> []"
    and "fetch e (image_edge_call e imagePrompt t) = Returns r"
    and "reply_ok r" and "reply_content_type r = Some ct" and "js_includes ct ''application/json''"
    and "reply_json r = Returns result" and "get_prop result ''output'' = Inr output"
  shows "(\<forall>x xs. output = Some (JArr (x # xs)) \<and> acceptable e x \<longrightarrow>
            fst (generateImage e imagePrompt p) = Some x)
       \<and> (\<forall>s. output = Some (JStr s) \<and> acceptable e (JStr s) \<longrightarrow>
            fst (generateImage e imagePrompt p) = Some (JStr s))
       \<and> (\<forall>u. fst (generateImage e imagePrompt p) = Some u \<longrightarrow>
            acceptable e u \<and> extractUrl output = Some u \<and>
            imageStatus (snd (generateImage e imagePrompt p)) = Done)
       \<and> (output = None \<or> output = Some (JArr []) \<or>
          (\<forall>u. extractUrl output = Some u \<longrightarrow> \<not> acceptable e u) \<longrightarrow>
            (\<exists>err. snd (image_request e imagePrompt) = Inl err \<and> invalid_output err) \<and>
            fst (generateImage e imagePrompt p) = None \<and>
            imageStatus (snd (generateImage e imagePrompt p)) = ImageFailed)"
proof -
  note req = image_request_edge[OF assms]
  have ok: "fst (generateImage e imagePrompt p) = Some u \<and>
            imageStatus (snd (generateImage e imagePrompt p)) = Done"
    if "extractUrl output = Some u" "acceptable e u" for u
  proof -
    have "validateUrl (URL_protocol e) (extractUrl output) = Inr u"
      using that by (simp add: validateUrl_Inr)
    then show ?thesis
      using that(2) by (auto simp: generateImage_def req acceptable_def)
  qed
  have bad: "(\<exists>err. snd (image_request e imagePrompt) = Inl err \<and> invalid_output err) \<and>
            fst (generateImage e imagePrompt p) = None \<and>
            imageStatus (snd (generateImage e imagePrompt p)) = ImageFailed"
    if "\<forall>u. extractUrl output = Some u \<longrightarrow> \<not> acceptable e u"
  proof -
    have "\<not> (\<exists>u. validateUrl (URL_protocol e) (extractUrl output) = Inr u)"
      using that by (simp add: validateUrl_Inr)
    then obtain err where err: "validateUrl (URL_protocol e) (extractUrl output) = Inl err"
      by (cases "validateUrl (URL_protocol e) (extractUrl output)") auto
    then show ?thesis
      using validateUrl_Inl[OF err] by (simp add: generateImage_def req)
  qed
  have a: "fst (generateImage e imagePrompt p) = Some x"
    if "output = Some (JArr (x # xs))" "acceptable e x" for x xs
    using ok[of x] that by (simp add: extractUrl_def)
  have b: "fst (generateImage e imagePrompt p) = Some (JStr s)"
    if "output = Some (JStr s)" "acceptable e (JStr s)" for s
    using ok[of "JStr s"] that by (simp add: extractUrl_def acceptable_def)
  have c: "acceptable e u \<and> extractUrl output = Some u \<and>
            imageStatus (snd (generateImage e imagePrompt p)) = Done"
    if "fst (generateImage e imagePrompt p) = Some u" for u
  proof (cases "\<exists>v. extractUrl output = Some v \<and> acceptable e v")
    case True
    then obtain v where v: "extractUrl output = Some v" "acceptable e v" by blast
    then show ?thesis using ok[OF v] that by simp
  next
    case False
    then show ?thesis using bad that by simp
  qed
  have d: "(\<exists>err. snd (image_request e imagePrompt) = Inl err \<and> invalid_output err) \<and>
            fst (generateImage e imagePrompt p) = None \<and>
            imageStatus (snd (generateImage e imagePrompt p)) = ImageFailed"
    if "output = None \<or> output = Some (JArr []) \<or>
          (\<forall>u. extractUrl output = Some u \<longrightarrow> \<not> acceptable e u)"
  proof -
    have "\<forall>u. extractUrl output = Some u \<longrightarrow> \<not> acceptable e u"
      using that by (auto simp: extractUrl_def)
    then show ?thesis by (rule bad)
  qed
  show ?thesis using a b c d by blast
qed

theorem C4_normalizer_witness:
  "fst (generateImage (browser_replying (succeeded_with (JArr [JStr ''https://a/b.png''])))
          (Some (JStr ''img'')) sample_page) = Some (JStr ''https://a/b.png'')
   \<and> fst (generateImage (browser_replying (succeeded_with (JStr ''https://a/b.png'')))
          (Some (JStr ''img'')) sample_page) = Some (JStr ''https://a/b.png'')
   \<and> fst (generateImage (browser_replying (succeeded_with (JStr ''not a url'')))
          (Some (JStr ''img'')) sample_page) = None
   \<and> fst (generateImage (browser_replying (succeeded_with (JArr [])))
          (Some (JStr ''img'')) sample_page) = None
   \<and> fst (generateImage (browser_replying (JObj [(''status'', JStr ''succeeded'')]))
          (Some (JStr ''img'')) sample_page) = None"
proof -
  have h: "useEdgeFunctions (browser_replying res)"
    "getAuthToken (browser_replying res) = Returns (Some ''jwt'')" "''jwt'' \<noteq> []"
    "fetch (browser_replying res) (image_edge_call (browser_replying res) (Some (JStr ''img'')) ''jwt'')
       = Returns (success_reply res)"
    "reply_ok (success_reply res)" "reply_content_type (success_reply res) = Some ''application/json''"
    "js_includes ''application/json'' ''application/json''"
    "reply_json (success_reply res) = Returns res" for res
    by (simp_all add: browser_replying_def sample_browser_def useEdgeFunctions_def success_reply_def)
  note inst = C4_normalizer[OF h]
  have acc: "acceptable (browser_replying res) (JStr ''https://a/b.png'')" for res
    by (simp add: acceptable_def browser_replying_def sample_browser_def sample_protocol_def)
  have nacc: "\<not> acceptable (browser_replying res) (JStr ''not a url'')" for res
    by (simp add: acceptable_def browser_replying_def sample_browser_def sample_protocol_def)
  have a: "fst (generateImage (browser_replying (succeeded_with (JArr [JStr ''https://a/b.png''])))
          (Some (JStr ''img'')) sample_page) = Some (JStr ''https://a/b.png'')"
    using inst[of "succeeded_with (JArr [JStr ''https://a/b.png''])" "Some (JArr [JStr ''https://a/b.png''])" sample_page] acc
    by (simp add: succeeded_with_def)
  have b: "fst (generateImage (browser_replying (succeeded_with (JStr ''https://a/b.png'')))
          (Some (JStr ''img'')) sample_page) = Some (JStr ''https://a/b.png'')"
    using inst[of "succeeded_with (JStr ''https://a/b.png'')" "Some (JStr ''https://a/b.png'')" sample_page] acc
    by (simp add: succeeded_with_def)
  have c: "fst (generateImage (browser_replying (succeeded_with (JStr ''not a url'')))
          (Some (JStr ''img'')) sample_page) = None"
    using inst[of "succeeded_with (JStr ''not a url'')" "Some (JStr ''not a url'')" sample_page] nacc
    by (simp add: succeeded_with_def extractUrl_def)
  have d: "fst (generateImage (browser_replying (succeeded_with (JArr [])))
          (Some (JStr ''img'')) sample_page) = None"
    using inst[of "succeeded_with (JArr [])" "Some (JArr [])" sample_page]
    by (simp add: succeeded_with_def)
  have e: "fst (generateImage (browser_replying (JObj [(''status'', JStr ''succeeded'')]))
          (Some (JStr ''img'')) sample_page) = None"
    using inst[of "JObj [(''status'', JStr ''succeeded'')]" None sample_page]
    by simp
  show ?thesis using a b c d e by simp
qed

section \<open>The orchestrator\<close>

lemma set_status_twice [simp]: "set_status (set_status el a) b = set_status el b"
  by (cases el) (simp_all add: set_status_def)

lemma set_status_ne: "t \<noteq> t' \<Longrightarrow> set_status el t \<noteq> Some t'"
  by (cases el) (simp_all add: set_status_def)

lemma generateImage_page:
  "calls (snd (generateImage e pr p)) = calls p @ fst (image_request e pr)"
  "seededitStatus (snd (generateImage e pr p)) = seededitStatus p"
  "seedanceStatus (snd (generateImage e pr p)) = seedanceStatus p"
  by (auto simp: generateImage_def split: prod.splits sum.splits)

lemma image_request_calls:
  "c \<in> set (fst (image_request e pr)) \<Longrightarrow> (\<exists>t. c = image_edge_call e pr t) \<or> c = image_api_call pr"
  by (auto simp: image_request_def Let_def split: outcome.splits option.splits if_splits sum.splits)

lemma image_call_kind:
  "\<not> is_edit_call (image_edge_call e pr t)" "\<not> is_video_call (image_edge_call e pr t)"
  "\<not> is_edit_call (image_api_call pr)" "\<not> is_video_call (image_api_call pr)"
  by (simp_all add: is_edit_call_def is_video_call_def image_edge_call_def image_api_call_def Let_def)

lemma image_request_kind:
  "filter is_edit_call (fst (image_request e pr)) = []"
  "filter is_video_call (fst (image_request e pr)) = []"
proof -
  have "\<not> is_edit_call c \<and> \<not> is_video_call c" if "c \<in> set (fst (image_request e pr))" for c
    using image_request_calls[OF that] image_call_kind by metis
  then show "filter is_edit_call (fst (image_request e pr)) = []"
    and "filter is_video_call (fst (image_request e pr)) = []"
    by (simp_all add: filter_empty_conv)
qed

lemma generateSeededit_page:
  "calls (snd (generateSeededit e u p)) = calls p @ (if truthy u then fst (seededit_request e u) else [])"
  "seedanceStatus (snd (generateSeededit e u p)) = seedanceStatus p"
  by (auto simp: generateSeededit_def split: prod.splits sum.splits)

lemma seededit_request_calls:
  "c \<in> set (fst (seededit_request e u)) \<Longrightarrow> (\<exists>t. c = seededit_edge_call e u t) \<or> c = seededit_api_call u"
  by (auto simp: seededit_request_def Let_def split: outcome.splits option.splits if_splits sum.splits)

lemma seededit_call_kind:
  "\<not> is_video_call (seededit_edge_call e u t)" "\<not> is_video_call (seededit_api_call u)"
  by (simp_all add: is_video_call_def seededit_edge_call_def seededit_api_call_def Let_def)

lemma seededit_request_kind:
  "filter is_video_call (fst (seededit_request e u)) = []"
proof -
  have "\<not> is_video_call c" if "c \<in> set (fst (seededit_request e u))" for c
    using seededit_request_calls[OF that] seededit_call_kind by metis
  then show ?thesis by (simp add: filter_empty_conv)
qed

lemma generateSeededit_guard:
  "\<not> truthy u \<Longrightarrow>
   generateSeededit e u p = (None, p\<lparr>seededitStatus := set_status (seededitStatus p) NoImageToProcess\<rparr>)"
  by (simp add: generateSeededit_def)

lemma generateSeededit_edge_valid:
  assumes "useEdgeFunctions e" and "fst (generateSeededit e u p) = Some v"
  shows "acceptable e v"
  using assms
  by (auto simp: generateSeededit_def seededit_request_def Let_def validateUrl_Inr
           split: prod.splits sum.splits outcome.splits option.splits if_splits)

lemma generateSeedanceVideo_page:
  "calls (snd (generateSeedanceVideo e vp sf p)) = calls p @ fst (seedance_request e vp sf)"
  "seededitStatus (snd (generateSeedanceVideo e vp sf p)) = seededitStatus p"
  by (auto simp: generateSeedanceVideo_def split: prod.splits sum.splits)

lemma seedance_request_calls:
  "c \<in> set (fst (seedance_request e vp sf)) \<Longrightarrow>
     (\<exists>t. c = seedance_edge_call e vp sf t) \<or> c = seedance_api_call vp sf"
  by (auto simp: seedance_request_def Let_def split: outcome.splits option.splits if_splits sum.splits)

lemma seedance_request_sent:
  assumes "\<not> useEdgeFunctions e \<or> (getAuthToken e = Returns (Some t) \<and> t \<noteq> [])"
    and "\<not> truthy sf \<or> is_string sf"
  shows "fst (seedance_request e vp sf) =
           [if useEdgeFunctions e then seedance_edge_call e vp sf t else seedance_api_call vp sf]"
  using assms
  by (auto simp: seedance_request_def Let_def split: outcome.splits option.splits if_splits sum.splits)

lemma seedance_call_kind:
  "is_video_call (seedance_edge_call e vp sf t)" "is_video_call (seedance_api_call vp sf)"
  "\<not> is_edit_call (seedance_edge_call e vp sf t)" "\<not> is_edit_call (seedance_api_call vp sf)"
  by (simp_all add: is_video_call_def is_edit_call_def seedance_edge_call_def seedance_api_call_def Let_def)

lemma seedance_call_frame:
  "start_frame_of (seedance_edge_call e vp sf t) = (if truthy sf then sf else None)"
  "start_frame_of (seedance_api_call vp sf) = (if truthy sf then sf else None)"
  by (cases vp; cases sf; simp add: start_frame_of_def read_prop_def seedance_edge_call_def
        seedance_api_call_def Let_def)+

lemma onGenerate_proceeds:
  assumes "requireAuth e" and "signedIn e" and "truthy (Some pr)"
    and "r = onGenerate e cfg masterEntropy (Some pr) p"
    and "e' = e\<lparr>currentMasterSeed := Some (generateBetterRandomSeed masterEntropy)\<rparr>"
    and "s1 = step1_image e' cfg pr (clearOutputs p)"
    and "s2 = step2_seededit e' cfg (fst s1) (snd s1)"
    and "s3 = step3_video e' cfg pr (fst s2) (fst s1) (snd s2)"
  shows "r = \<lparr>run_imageUrl = fst s1, run_editedImageUrl = fst s2, run_startFrame = fst s3,
               run_seedanceUrl = fst (snd s3), run_page = snd (snd s3)\<rparr>"
  using assms by (simp add: onGenerate_def Let_def)

lemma step1_page:
  "calls (snd (step1_image e cfg pr p)) =
     calls p @ (if enableImage cfg then fst (image_request e (read_prop pr ''image_prompt'')) else [])"
  "seededitStatus (snd (step1_image e cfg pr p)) = seededitStatus p"
  "\<not> enableImage cfg \<Longrightarrow> fst (step1_image e cfg pr p) = None"
  by (simp_all add: step1_image_def generateImage_page)

lemma step2_page:
  "calls (snd (step2_seededit e cfg u p)) =
     calls p @ (if enableSeededit cfg \<and> truthy u then fst (seededit_request e u) else [])"
  by (simp add: step2_seededit_def generateSeededit_page)

lemma step2_skipped:
  assumes "enableSeededit cfg" and "\<not> truthy u"
  shows "step2_seededit e cfg u p =
           (None, p\<lparr>seededitStatus := set_status (seededitStatus p) NoImageDisabledOrFailed\<rparr>)"
  using assms by (simp add: step2_seededit_def)

lemma step3_page:
  "calls (snd (snd (step3_video e cfg pr ed im p))) =
     calls p @ (if enableSeedance cfg
                  then fst (seedance_request e (read_prop pr ''video_prompt'')
                              (fst (selectStartFrame e (useStartFrame cfg) ed im)))
                else [])"
  "seededitStatus (snd (snd (step3_video e cfg pr ed im p))) = seededitStatus p"
  "enableSeedance cfg \<Longrightarrow>
     fst (step3_video e cfg pr ed im p) = Some (selectStartFrame e (useStartFrame cfg) ed im)"
  by (simp_all add: step3_video_def Let_def generateSeedanceVideo_page)

lemma seedance_request_no_edit:
  "filter is_edit_call (fst (seedance_request e vp sf)) = []"
proof -
  have "\<not> is_edit_call c" if "c \<in> set (fst (seedance_request e vp sf))" for c
    using seedance_request_calls[OF that] seedance_call_kind by metis
  then show ?thesis by (simp add: filter_empty_conv)
qed

lemma seedance_request_video_only:
  "filter is_video_call (fst (seedance_request e vp sf)) = fst (seedance_request e vp sf)"
proof -
  have "is_video_call c" if "c \<in> set (fst (seedance_request e vp sf))" for c
    using seedance_request_calls[OF that] seedance_call_kind by metis
  then show ?thesis by (simp add: filter_id_conv)
qed

lemma parses_env [simp]: "parses (e\<lparr>currentMasterSeed := s\<rparr>) v = parses e v"
  by (cases v) simp_all

lemma selectStartFrame_env [simp]:
  "selectStartFrame (e\<lparr>currentMasterSeed := s\<rparr>) u a b = selectStartFrame e u a b"
  by (simp add: selectStartFrame_def)

lemma onGenerate_edit_skipped:
  assumes "requireAuth e" and "signedIn e" and "truthy (Some pr)"
    and "enableSeededit cfg"
    and "r = onGenerate e cfg masterEntropy (Some pr) p"
    and "\<not> enableImage cfg \<or> \<not> truthy (run_imageUrl r)"
  shows "run_editedImageUrl r = None"
    and "filter is_edit_call (new_calls p r) = []"
    and "seededitStatus (run_page r) = set_status (seededitStatus p) NoImageDisabledOrFailed"
proof -
  define e' where "e' = e\<lparr>currentMasterSeed := Some (generateBetterRandomSeed masterEntropy)\<rparr>"
  define s1 where "s1 = step1_image e' cfg pr (clearOutputs p)"
  define s2 where "s2 = step2_seededit e' cfg (fst s1) (snd s1)"
  define s3 where "s3 = step3_video e' cfg pr (fst s2) (fst s1) (snd s2)"
  note r = onGenerate_proceeds[OF assms(1-3,5) e'_def s1_def s2_def s3_def]
  have "run_imageUrl r = fst s1" by (subst r) simp
  moreover have "\<not> enableImage cfg \<Longrightarrow> fst s1 = None" by (simp add: s1_def step1_page)
  ultimately have nt: "\<not> truthy (fst s1)" using assms(6) by auto
  have s2: "s2 = (None, (snd s1)\<lparr>seededitStatus :=
                    set_status (seededitStatus (snd s1)) NoImageDisabledOrFailed\<rparr>)"
    unfolding s2_def using assms(4) nt by (rule step2_skipped)
  show "run_editedImageUrl r = None" by (subst r) (simp add: s2)
  show "seededitStatus (run_page r) = set_status (seededitStatus p) NoImageDisabledOrFailed"
    by (subst r) (simp add: s3_def step3_page s2 s1_def step1_page clearOutputs_def)
  have "calls (run_page r) = calls p
          @ (if enableImage cfg then fst (image_request e' (read_prop pr ''image_prompt'')) else [])
          @ (if enableSeedance cfg
               then fst (seedance_request e' (read_prop pr ''video_prompt'')
                           (fst (selectStartFrame e' (useStartFrame cfg) (fst s2) (fst s1))))
             else [])"
    by (subst r) (simp add: s3_def step3_page s2 s1_def step1_page clearOutputs_def)
  then have "new_calls p r =
          (if enableImage cfg then fst (image_request e' (read_prop pr ''image_prompt'')) else [])
          @ (if enableSeedance cfg
               then fst (seedance_request e' (read_prop pr ''video_prompt'')
                           (fst (selectStartFrame e' (useStartFrame cfg) (fst s2) (fst s1))))
             else [])"
    by (simp add: new_calls_def)
  then show "filter is_edit_call (new_calls p r) = []"
    by (simp add: image_request_kind seedance_request_no_edit)
qed

lemma onGenerate_video:
  assumes "requireAuth e" and "signedIn e" and "truthy (Some pr)"
    and "enableSeedance cfg"
    and "r = onGenerate e cfg masterEntropy (Some pr) p"
  shows "run_startFrame r =
           Some (selectStartFrame e (useStartFrame cfg) (run_editedImageUrl r) (run_imageUrl r))"
    and "filter is_video_call (new_calls p r) =
           fst (seedance_request (e\<lparr>currentMasterSeed := Some (generateBetterRandomSeed masterEntropy)\<rparr>)
                  (read_prop pr ''video_prompt'')
                  (fst (selectStartFrame e (useStartFrame cfg) (run_editedImageUrl r) (run_imageUrl r))))"
proof -
  define e' where "e' = e\<lparr>currentMasterSeed := Some (generateBetterRandomSeed masterEntropy)\<rparr>"
  define s1 where "s1 = step1_image e' cfg pr (clearOutputs p)"
  define s2 where "s2 = step2_seededit e' cfg (fst s1) (snd s1)"
  define s3 where "s3 = step3_video e' cfg pr (fst s2) (fst s1) (snd s2)"
  note r = onGenerate_proceeds[OF assms(1-3,5) e'_def s1_def s2_def s3_def]
  have im: "run_imageUrl r = fst s1" and ed: "run_editedImageUrl r = fst s2"
    and sf: "run_startFrame r = fst s3" and pg: "run_page r = snd (snd s3)"
    by (subst r, simp)+
  have sel: "selectStartFrame e' (useStartFrame cfg) (fst s2) (fst s1)
               = selectStartFrame e (useStartFrame cfg) (fst s2) (fst s1)"
    by (simp add: e'_def)
  show "run_startFrame r =
           Some (selectStartFrame e (useStartFrame cfg) (run_editedImageUrl r) (run_imageUrl r))"
    unfolding sf im ed using assms(4) sel by (simp add: s3_def step3_page)
  have "calls (run_page r) = calls p
      @ (if enableImage cfg then fst (image_request e' (read_prop pr ''image_prompt'')) else [])
      @ (if enableSeededit cfg \<and> truthy (fst s1) then fst (seededit_request e' (fst s1)) else [])
      @ fst (seedance_request e' (read_prop pr ''video_prompt'')
               (fst (selectStartFrame e (useStartFrame cfg) (fst s2) (fst s1))))"
    unfolding pg using assms(4) sel
    by (simp add: s3_def step3_page s2_def step2_page s1_def[symmetric])
       (simp add: s1_def step1_page clearOutputs_def)
  then have "new_calls p r =
      (if enableImage cfg then fst (image_request e' (read_prop pr ''image_prompt'')) else [])
      @ (if enableSeededit cfg \<and> truthy (fst s1) then fst (seededit_request e' (fst s1)) else [])
      @ fst (seedance_request e' (read_prop pr ''video_prompt'')
               (fst (selectStartFrame e (useStartFrame cfg) (fst s2) (fst s1))))"
    by (simp add: new_calls_def)
  then show "filter is_video_call (new_calls p r) =
           fst (seedance_request (e\<lparr>currentMasterSeed := Some (generateBetterRandomSeed masterEntropy)\<rparr>)
                  (read_prop pr ''video_prompt'')
                  (fst (selectStartFrame e (useStartFrame cfg) (run_editedImageUrl r) (run_imageUrl r))))"
    unfolding im ed e'_def[symmetric]
    by (simp add: image_request_kind seededit_request_kind seedance_request_video_only)
qed

lemma onGenerate_edited_valid:
  assumes "requireAuth e" and "signedIn e" and "truthy (Some pr)"
    and "r = onGenerate e cfg masterEntropy (Some pr) p"
    and "run_editedImageUrl r = Some v" and "supabaseConfig e"
  shows "acceptable e v"
proof -
  define e' where "e' = e\<lparr>currentMasterSeed := Some (generateBetterRandomSeed masterEntropy)\<rparr>"
  define s1 where "s1 = step1_image e' cfg pr (clearOutputs p)"
  define s2 where "s2 = step2_seededit e' cfg (fst s1) (snd s1)"
  define s3 where "s3 = step3_video e' cfg pr (fst s2) (fst s1) (snd s2)"
  note r = onGenerate_proceeds[OF assms(1-4) e'_def s1_def s2_def s3_def]
  have ue: "useEdgeFunctions e'" using assms(2,6) by (simp add: useEdgeFunctions_def e'_def)
  have "run_editedImageUrl r = fst s2" by (subst r) simp
  then have "fst s2 = Some v" using assms(5) by simp
  then obtain u p' where "fst (generateSeededit e' u p') = Some v"
    unfolding s2_def step2_seededit_def by (auto split: if_splits)
  from generateSeededit_edge_valid[OF ue this] show ?thesis by (simp add: acceptable_def e'_def)
qed

lemma seededit_call_is_edit:
  "is_edit_call (seededit_edge_call e u t)" "is_edit_call (seededit_api_call u)"
  by (simp_all add: is_edit_call_def seededit_edge_call_def seededit_api_call_def Let_def)

lemma sample_run:
  defines "r \<equiv> onGenerate sample_browser (sample_config True True) (Crypto 7) (Some sample_prompts) sample_page"
  shows "run_imageUrl r = Some (JStr ''https://x/image.png'')"
    and "run_editedImageUrl r = Some (JStr ''https://x/edited.png'')"
proof -
  define e' where "e' = sample_browser\<lparr>currentMasterSeed := Some (generateBetterRandomSeed (Crypto 7))\<rparr>"
  define s1 where "s1 = step1_image e' (sample_config True True) sample_prompts (clearOutputs sample_page)"
  define s2 where "s2 = step2_seededit e' (sample_config True True) (fst s1) (snd s1)"
  define s3 where "s3 = step3_video e' (sample_config True True) sample_prompts (fst s2) (fst s1) (snd s2)"
  have h1: "requireAuth sample_browser" and h2: "signedIn sample_browser"
    by (simp_all add: sample_browser_def)
  have h3: "truthy (Some sample_prompts)" by (simp add: sample_prompts_def)
  have rr: "r = onGenerate sample_browser (sample_config True True) (Crypto 7) (Some sample_prompts) sample_page"
    by (simp add: r_def)
  note r = onGenerate_proceeds[OF h1 h2 h3 rr e'_def s1_def s2_def s3_def]
  have ue: "useEdgeFunctions e'" and tk: "getAuthToken e' = Returns (Some ''jwt'')" and ne: "''jwt'' \<noteq> []"
    by (simp_all add: e'_def sample_browser_def useEdgeFunctions_def)
  have f1: "fetch e' (image_edge_call e' pr ''jwt'')
              = Returns (success_reply (succeeded_with (JArr [JStr ''https://x/image.png''])))" for pr
    by (simp add: e'_def sample_browser_def sample_fetch_def image_call_kind)
  have f2: "fetch e' (seededit_edge_call e' u ''jwt'')
              = Returns (success_reply (succeeded_with (JStr ''https://x/edited.png'')))" for u
    by (simp add: e'_def sample_browser_def sample_fetch_def seededit_call_is_edit)
  have rp: "reply_ok (success_reply x)" "reply_content_type (success_reply x) = Some ''application/json''"
    "js_includes ''application/json'' ''application/json''" "reply_json (success_reply x) = Returns x"
    "get_prop (succeeded_with y) ''output'' = Inr (Some y)" for x y
    by (simp_all add: success_reply_def succeeded_with_def)
  have a1: "acceptable e' (JStr ''https://x/image.png'')" and a2: "acceptable e' (JStr ''https://x/edited.png'')"
    by (simp_all add: acceptable_def e'_def sample_browser_def sample_protocol_def)
  have x1: "extractUrl (Some (JArr [JStr ''https://x/image.png''])) = Some (JStr ''https://x/image.png'')"
    and x2: "extractUrl (Some (JStr ''https://x/edited.png'')) = Some (JStr ''https://x/edited.png'')"
    by (simp_all add: extractUrl_def)
  have i: "fst s1 = Some (JStr ''https://x/image.png'')"
    unfolding s1_def step1_image_def
    using generateImage_edge_ok(1)[OF ue tk ne f1 rp(1,2,3,4,5) x1 a1]
    by (simp add: sample_config_def)
  show "run_imageUrl r = Some (JStr ''https://x/image.png'')" by (subst r) (simp add: i)
  have "fst s2 = Some (JStr ''https://x/edited.png'')"
    unfolding s2_def step2_seededit_def i
    using generateSeededit_edge_ok[OF ue tk ne f2 rp(1,4,5) x2 a2]
    by (simp add: sample_config_def)
  then show "run_editedImageUrl r = Some (JStr ''https://x/edited.png'')" by (subst r) simp
qed

text \<open>
  C5. In a run that reaches the stages with Edit enabled, if Image is disabled or
  returned nothing truthy, then Edit returns \<open>null\<close>, the run sends no Edit request,
  and the Edit status line (when the element exists) reads "No image to process (image
  generation disabled or failed)", which is not Edit's own failure line "Text removal
  failed."; and \<open>generateSeededit\<close> itself, given no image, sends nothing and
  writes "No image to process.".
\<close>

theorem C5_edit_skipped:
  assumes "requireAuth e" and "signedIn e" and "truthy (Some pr)"
    and "enableSeededit cfg"
    and "r = onGenerate e cfg masterEntropy (Some pr) p"
    and "\<not> enableImage cfg \<or> \<not> truthy (run_imageUrl r)"
  shows "run_editedImageUrl r = None
       \<and> filter is_edit_call (new_calls p r) = []
       \<and> seededitStatus (run_page r) = set_status (seededitStatus p) NoImageDisabledOrFailed
       \<and> seededitStatus (run_page r) \<noteq> Some TextRemovalFailed
       \<and> (\<forall>e' u p'. \<not> truthy u \<longrightarrow>
            generateSeededit e' u p' =
              (None, p'\<lparr>seededitStatus := set_status (seededitStatus p') NoImageToProcess\<rparr>))"
  using onGenerate_edit_skipped[OF assms] generateSeededit_guard
  by (simp add: set_status_ne)

theorem C5_edit_skipped_witness:
  "run_editedImageUrl (onGenerate sample_browser (sample_config False True) (Crypto 7) (Some sample_prompts) sample_page) = None
   \<and> filter is_edit_call (new_calls sample_page
        (onGenerate sample_browser (sample_config False True) (Crypto 7) (Some sample_prompts) sample_page)) = []
   \<and> seededitStatus (run_page
        (onGenerate sample_browser (sample_config False True) (Crypto 7) (Some sample_prompts) sample_page))
       = Some NoImageDisabledOrFailed"
proof -
  have h1: "requireAuth sample_browser" and h2: "signedIn sample_browser"
    by (simp_all add: sample_browser_def)
  have h3: "truthy (Some sample_prompts)" by (simp add: sample_prompts_def)
  have h4: "enableSeededit (sample_config False True)" by (simp add: sample_config_def)
  have h6: "\<not> enableImage (sample_config False True) \<or>
            \<not> truthy (run_imageUrl (onGenerate sample_browser (sample_config False True) (Crypto 7) (Some sample_prompts) sample_page))"
    by (simp add: sample_config_def)
  show ?thesis
    using C5_edit_skipped[OF h1 h2 h3 h4 refl h6]
    by (simp add: sample_page_def set_status_def)
qed

text \<open>
  C6. In a run that reaches the stages with Video enabled and the start-frame box
  checked, if Image returned the string \<open>urlA\<close> and Edit returned the string \<open>urlB\<close>
  (which the platform parses as a URL: on the edge-function path Edit's own check
  ensures it), the start frame chosen is \<open>urlB\<close>, every Video request of the run
  carries \<open>image = urlB\<close>, and exactly one Video request is sent when the stage can
  send at all.
\<close>

theorem C6_start_frame_preference:
  assumes "requireAuth e" and "signedIn e" and "truthy (Some pr)"
    and "enableSeedance cfg" and "useStartFrame cfg = Some True"
    and "r = onGenerate e cfg masterEntropy (Some pr) p"
    and "run_imageUrl r = Some (JStr urlA)" and "urlA \<noteq> []"
    and "run_editedImageUrl r = Some (JStr urlB)" and "urlB \<noteq> []"
    and "supabaseConfig e \<or> URL_protocol e (JStr urlB) \<noteq> None"
  shows "run_startFrame r = Some (Some (JStr urlB), FrameConfirmed)
       \<and> (\<forall>c \<in> set (new_calls p r). is_video_call c \<longrightarrow> start_frame_of c = Some (JStr urlB))
       \<and> (\<not> supabaseConfig e \<or> (\<exists>t. getAuthToken e = Returns (Some t) \<and> t \<noteq> []) \<longrightarrow>
            (\<exists>c. filter is_video_call (new_calls p r) = [c]))"
proof -
  let ?e = "e\<lparr>currentMasterSeed := Some (generateBetterRandomSeed masterEntropy)\<rparr>"
  have "URL_protocol e (JStr urlB) \<noteq> None"
  proof (cases "supabaseConfig e")
    case True
    from onGenerate_edited_valid[OF assms(1-3,6,9) True] show ?thesis
      by (auto simp: acceptable_def)
  next
    case False
    then show ?thesis using assms(11) by simp
  qed
  then have sel: "selectStartFrame e (useStartFrame cfg) (run_editedImageUrl r) (run_imageUrl r)
                  = (Some (JStr urlB), FrameConfirmed)"
    using assms(5,7-10) by (simp add: selectStartFrame_def)
  note v = onGenerate_video[OF assms(1-4,6)]
  have a: "run_startFrame r = Some (Some (JStr urlB), FrameConfirmed)"
    using v(1) sel by simp
  have vc: "filter is_video_call (new_calls p r) =
              fst (seedance_request ?e (read_prop pr ''video_prompt'') (Some (JStr urlB)))"
    using v(2) sel by simp
  have b: "start_frame_of c = Some (JStr urlB)" if "c \<in> set (new_calls p r)" "is_video_call c" for c
  proof -
    have "c \<in> set (filter is_video_call (new_calls p r))" using that by simp
    then have "c \<in> set (fst (seedance_request ?e (read_prop pr ''video_prompt'') (Some (JStr urlB))))"
      using vc by simp
    from seedance_request_calls[OF this] show ?thesis
      using assms(10) by (auto simp: seedance_call_frame)
  qed
  have c: "\<exists>c. filter is_video_call (new_calls p r) = [c]"
    if "\<not> supabaseConfig e \<or> (\<exists>t. getAuthToken e = Returns (Some t) \<and> t \<noteq> [])"
  proof -
    from that obtain t where "\<not> useEdgeFunctions ?e \<or> (getAuthToken ?e = Returns (Some t) \<and> t \<noteq> [])"
      by (auto simp: useEdgeFunctions_def)
    from seedance_request_sent[OF this, of "Some (JStr urlB)" "read_prop pr ''video_prompt''"]
    show ?thesis using vc by simp
  qed
  show ?thesis using a b c by blast
qed

theorem C6_start_frame_preference_witness:
  "run_startFrame (onGenerate sample_browser (sample_config True True) (Crypto 7) (Some sample_prompts) sample_page)
     = Some (Some (JStr ''https://x/edited.png''), FrameConfirmed)
   \<and> map start_frame_of (filter is_video_call (new_calls sample_page
         (onGenerate sample_browser (sample_config True True) (Crypto 7) (Some sample_prompts) sample_page)))
       = [Some (JStr ''https://x/edited.png'')]"
proof -
  let ?r = "onGenerate sample_browser (sample_config True True) (Crypto 7) (Some sample_prompts) sample_page"
  have h1: "requireAuth sample_browser" and h2: "signedIn sample_browser"
    by (simp_all add: sample_browser_def)
  have h3: "truthy (Some sample_prompts)" by (simp add: sample_prompts_def)
  have h4: "enableSeedance (sample_config True True)"
    and h5: "useStartFrame (sample_config True True) = Some True"
    by (simp_all add: sample_config_def)
  have h8: "''https://x/image.png'' \<noteq> []" and h10: "''https://x/edited.png'' \<noteq> []" by simp_all
  have h11: "supabaseConfig sample_browser \<or> URL_protocol sample_browser (JStr ''https://x/edited.png'') \<noteq> None"
    by (simp add: sample_browser_def)
  have tok: "\<not> supabaseConfig sample_browser \<or> (\<exists>t. getAuthToken sample_browser = Returns (Some t) \<and> t \<noteq> [])"
    by (simp add: sample_browser_def)
  note main = C6_start_frame_preference[OF h1 h2 h3 h4 h5 refl sample_run(1) h8 sample_run(2) h10 h11]
  from main tok obtain c where c: "filter is_video_call (new_calls sample_page ?r) = [c]" by blast
  then have "c \<in> set (filter is_video_call (new_calls sample_page ?r))" by simp
  then have "c \<in> set (new_calls sample_page ?r)" and "is_video_call c" by simp_all
  with main have "start_frame_of c = Some (JStr ''https://x/edited.png'')" by blast
  with main c show ?thesis by simp
qed

text \<open>
  C7. In a run that reaches the stages with Video enabled and the start-frame box
  checked, if neither Image nor Edit returned anything truthy and the stage can send
  (serverless path, or an authentication token is available), then no start frame is
  chosen, the selection ends with a \<open>console.log\<close> line and not a
  \<open>console.error\<close> one, and exactly one Video request is sent, without an
  \<open>image\<close> property.
\<close>

theorem C7_degraded_continuation:
  assumes "requireAuth e" and "signedIn e" and "truthy (Some pr)"
    and "enableSeedance cfg" and "useStartFrame cfg = Some True"
    and "r = onGenerate e cfg masterEntropy (Some pr) p"
    and "\<not> truthy (run_imageUrl r)" and "\<not> truthy (run_editedImageUrl r)"
    and "\<not> supabaseConfig e \<or> (getAuthToken e = Returns (Some t) \<and> t \<noteq> [])"
  shows "run_startFrame r = Some (None, NoImageAvailable)
       \<and> note_method NoImageAvailable = ConsoleLog
       \<and> (\<exists>c. filter is_video_call (new_calls p r) = [c] \<and> start_frame_of c = None)"
proof -
  let ?e = "e\<lparr>currentMasterSeed := Some (generateBetterRandomSeed masterEntropy)\<rparr>"
  have sel: "selectStartFrame e (useStartFrame cfg) (run_editedImageUrl r) (run_imageUrl r)
             = (None, NoImageAvailable)"
    using assms(5,7,8) by (simp add: selectStartFrame_def)
  note v = onGenerate_video[OF assms(1-4,6)]
  have a: "run_startFrame r = Some (None, NoImageAvailable)"
    using v(1) sel by simp
  have s: "\<not> useEdgeFunctions ?e \<or> (getAuthToken ?e = Returns (Some t) \<and> t \<noteq> [])"
    using assms(9) by (auto simp: useEdgeFunctions_def)
  have "filter is_video_call (new_calls p r) =
          [if useEdgeFunctions ?e then seedance_edge_call ?e (read_prop pr ''video_prompt'') None t
           else seedance_api_call (read_prop pr ''video_prompt'') None]"
    using v(2) sel seedance_request_sent[OF s, of None "read_prop pr ''video_prompt''"] by simp
  then have "\<exists>c. filter is_video_call (new_calls p r) = [c] \<and> start_frame_of c = None"
    by (simp add: seedance_call_frame)
  then show ?thesis using a by simp
qed

theorem C7_degraded_continuation_witness:
  "run_startFrame (onGenerate sample_browser (sample_config False False) (Crypto 7) (Some sample_prompts) sample_page)
     = Some (None, NoImageAvailable)
   \<and> map start_frame_of (filter is_video_call (new_calls sample_page
         (onGenerate sample_browser (sample_config False False) (Crypto 7) (Some sample_prompts) sample_page)))
       = [None]"
proof -
  let ?r = "onGenerate sample_browser (sample_config False False) (Crypto 7) (Some sample_prompts) sample_page"
  have h1: "requireAuth sample_browser" and h2: "signedIn sample_browser"
    by (simp_all add: sample_browser_def)
  have h3: "truthy (Some sample_prompts)" by (simp add: sample_prompts_def)
  have h4: "enableSeedance (sample_config False False)"
    and h5: "useStartFrame (sample_config False False) = Some True"
    by (simp_all add: sample_config_def)
  have h7: "\<not> truthy (run_imageUrl ?r)" and h8: "\<not> truthy (run_editedImageUrl ?r)"
    by (simp_all add: onGenerate_def step1_image_def step2_seededit_def sample_browser_def
          sample_prompts_def sample_config_def Let_def)
  have h9: "\<not> supabaseConfig sample_browser \<or> (getAuthToken sample_browser = Returns (Some ''jwt'') \<and> ''jwt'' \<noteq> [])"
    by (simp add: sample_browser_def)
  from C7_degraded_continuation[OF h1 h2 h3 h4 h5 refl h7 h8 h9]
  show ?thesis by auto
qed


section \<open>Fallback copy\<close>

lemma map_of_set_prop:
  "map_of (set_prop key v kvs) k = (if k = key then Some v else map_of kvs k)"
  by (induction kvs) auto

lemma element_text_nonempty: "[] \<notin> set xs \<Longrightarrow> element_text xs i \<noteq> []"
  by (auto simp: element_text_def dest: nth_mem)

lemma randomTimeOfDay_nonempty: "randomTimeOfDay d \<noteq> []"
  unfolding randomTimeOfDay_def
  by (rule element_text_nonempty) (simp add: timesOfDay_def)

lemma fallbacks_nonempty:
  "imagePromptFallback pf d \<noteq> []" "videoPromptFallback pf d \<noteq> []"
  using randomTimeOfDay_nonempty[of d]
  by (simp_all add: imagePromptFallback_def videoPromptFallback_def Let_def)

lemma replace_word_nonempty:
  "s \<noteq> [] \<Longrightarrow> new \<noteq> [] \<Longrightarrow> replace_word w new prev s \<noteq> []"
  by (cases s) auto

lemma improvePronunciation_nonempty: "s \<noteq> [] \<Longrightarrow> improvePronunciation s \<noteq> []"
  by (simp add: improvePronunciation_def replace_word_nonempty)

text \<open>
  The image fallback is built from the profile, the time of day, the ethnicity and the
  idle action; the video fallback from these and the B-roll text.
\<close>

lemma imagePromptFallback_draws:
  assumes "timeIndex d' = timeIndex d" and "ethnicityIndex d' = ethnicityIndex d"
    and "idleIndex d' = idleIndex d"
  shows "imagePromptFallback pf d' = imagePromptFallback pf d"
  using assms
  by (simp add: imagePromptFallback_def randomTimeOfDay_def randomEthnicity_def randomIdleAction_def)

lemma videoPromptFallback_draws:
  assumes "timeIndex d' = timeIndex d" and "ethnicityIndex d' = ethnicityIndex d"
    and "idleIndex d' = idleIndex d" and "safeBRollText d' = safeBRollText d"
  shows "videoPromptFallback pf d' = videoPromptFallback pf d"
  using assms
  by (simp add: videoPromptFallback_def randomTimeOfDay_def randomEthnicity_def randomIdleAction_def)

lemma supplyFallbacks_fill:
  "supplyFallbacks pf d json =
     fill ''button_text'' (JStr (''Come'' @ [CHR 0xE7] @ ''ar a usar''))
       (fill ''overlay_text'' (JStr (''Tap to Pay'' @ [CHR 0x0A] @ ''no iPhone''))
         (fill ''video_prompt'' (JStr (videoPromptFallback pf d))
           (fill ''image_prompt'' (JStr (imagePromptFallback pf d)) json)))"
  unfolding supplyFallbacks_def fill_def Let_def by (rule refl)

lemma map_of_fill:
  "map_of (fill key v json) k =
     (if k = key \<and> \<not> truthy (map_of json key) then Some v else map_of json k)"
  by (simp add: fill_def map_of_set_prop)

lemma map_of_fill_other: "k \<noteq> key \<Longrightarrow> map_of (fill key v json) k = map_of json k"
  by (simp add: map_of_fill)

lemma map_of_fill_missing:
  "\<not> truthy (map_of json key) \<Longrightarrow> map_of (fill key v json) key = Some v"
  by (simp add: map_of_fill)

lemma map_of_fill_present:
  "truthy (map_of json key) \<Longrightarrow> map_of (fill key v json) key = map_of json key"
  by (simp add: map_of_fill)

lemma truthy_fill: "truthy (Some v) \<Longrightarrow> truthy (map_of (fill key v json) key)"
  by (simp add: map_of_fill)

text \<open>The four fields after lines 1560-1605.\<close>

lemma supplyFallbacks_fields:
  "map_of (supplyFallbacks pf d json) ''image_prompt'' =
     (if truthy (map_of json ''image_prompt'') then map_of json ''image_prompt''
      else Some (JStr (imagePromptFallback pf d)))"
  "map_of (supplyFallbacks pf d json) ''video_prompt'' =
     (if truthy (map_of json ''video_prompt'') then map_of json ''video_prompt''
      else Some (JStr (videoPromptFallback pf d)))"
  "map_of (supplyFallbacks pf d json) ''overlay_text'' =
     (if truthy (map_of json ''overlay_text'') then map_of json ''overlay_text''
      else Some (JStr (''Tap to Pay'' @ [CHR 0x0A] @ ''no iPhone'')))"
  "map_of (supplyFallbacks pf d json) ''button_text'' =
     (if truthy (map_of json ''button_text'') then map_of json ''button_text''
      else Some (JStr (''Come'' @ [CHR 0xE7] @ ''ar a usar'')))"
proof -
  let ?I = "JStr (imagePromptFallback pf d)" and ?V = "JStr (videoPromptFallback pf d)"
  let ?O = "JStr (''Tap to Pay'' @ [CHR 0x0A] @ ''no iPhone'')"
  let ?B = "JStr (''Come'' @ [CHR 0xE7] @ ''ar a usar'')"
  let ?j1 = "fill ''image_prompt'' ?I json"
  let ?j2 = "fill ''video_prompt'' ?V ?j1"
  let ?j3 = "fill ''overlay_text'' ?O ?j2"
  let ?j4 = "fill ''button_text'' ?B ?j3"
  have out: "supplyFallbacks pf d json = ?j4" by (rule supplyFallbacks_fill)
  have ne: "''image_prompt'' \<noteq> ''video_prompt''" "''image_prompt'' \<noteq> ''overlay_text''"
    "''image_prompt'' \<noteq> ''button_text''" "''video_prompt'' \<noteq> ''overlay_text''"
    "''video_prompt'' \<noteq> ''button_text''" "''overlay_text'' \<noteq> ''button_text''"
    "''video_prompt'' \<noteq> ''image_prompt''" "''overlay_text'' \<noteq> ''image_prompt''"
    "''button_text'' \<noteq> ''image_prompt''" "''overlay_text'' \<noteq> ''video_prompt''"
    "''button_text'' \<noteq> ''video_prompt''" "''button_text'' \<noteq> ''overlay_text''"
    by simp_all
  have i4: "map_of ?j4 ''image_prompt'' = map_of ?j1 ''image_prompt''"
    by (simp only: map_of_fill_other[OF ne(3)] map_of_fill_other[OF ne(2)] map_of_fill_other[OF ne(1)])
  have v4: "map_of ?j4 ''video_prompt'' = map_of ?j2 ''video_prompt''"
    by (simp only: map_of_fill_other[OF ne(5)] map_of_fill_other[OF ne(4)])
  have v1: "map_of ?j1 ''video_prompt'' = map_of json ''video_prompt''"
    by (simp only: map_of_fill_other[OF ne(7)])
  have o4: "map_of ?j4 ''overlay_text'' = map_of ?j3 ''overlay_text''"
    by (simp only: map_of_fill_other[OF ne(6)])
  have o2: "map_of ?j2 ''overlay_text'' = map_of json ''overlay_text''"
    by (simp only: map_of_fill_other[OF ne(10)] map_of_fill_other[OF ne(8)])
  have b3: "map_of ?j3 ''button_text'' = map_of json ''button_text''"
    by (simp only: map_of_fill_other[OF ne(12)] map_of_fill_other[OF ne(11)] map_of_fill_other[OF ne(9)])
  show "map_of (supplyFallbacks pf d json) ''image_prompt'' =
     (if truthy (map_of json ''image_prompt'') then map_of json ''image_prompt'' else Some ?I)"
    unfolding out i4 by (simp add: map_of_fill_missing map_of_fill_present)
  show "map_of (supplyFallbacks pf d json) ''video_prompt'' =
     (if truthy (map_of json ''video_prompt'') then map_of json ''video_prompt'' else Some ?V)"
    unfolding out v4 using v1
    by (cases "truthy (map_of json ''video_prompt'')") (simp_all add: map_of_fill_missing map_of_fill_present)
  show "map_of (supplyFallbacks pf d json) ''overlay_text'' =
     (if truthy (map_of json ''overlay_text'') then map_of json ''overlay_text'' else Some ?O)"
    unfolding out o4 using o2
    by (cases "truthy (map_of json ''overlay_text'')") (simp_all add: map_of_fill_missing map_of_fill_present)
  show "map_of (supplyFallbacks pf d json) ''button_text'' =
     (if truthy (map_of json ''button_text'') then map_of json ''button_text'' else Some ?B)"
    unfolding out using b3
    by (cases "truthy (map_of json ''button_text'')") (simp_all add: map_of_fill_missing map_of_fill_present)
qed

text \<open>What the function returns when nothing throws, and the two ways it returns
  \<open>null\<close> without supplying anything.\<close>

lemma callOpenAIForPrompts_returns:
  assumes "cnae_has_type pf"
    and "map_of (supplyFallbacks pf d json) ''video_prompt'' = Some (JStr s)" and "s \<noteq> []"
  shows "callOpenAIForPrompts pf d (Returns json) =
           Some (set_prop ''voice_metadata'' (voice_metadata pf)
                   (set_prop ''video_prompt'' (JStr (improvePronunciation s))
                      (supplyFallbacks pf d json)))"
  using assms by (simp add: callOpenAIForPrompts_def Let_def)

lemma callOpenAIForPrompts_no_type:
  "\<not> cnae_has_type pf \<Longrightarrow> callOpenAIForPrompts pf d reply = None"
  by (simp add: callOpenAIForPrompts_def)

lemma callOpenAIForPrompts_not_string:
  assumes "truthy (map_of json ''video_prompt'')" and "\<not> is_string (map_of json ''video_prompt'')"
  shows "callOpenAIForPrompts pf d (Returns json) = None"
  using assms by (simp add: callOpenAIForPrompts_def Let_def supplyFallbacks_fields)

lemma callOpenAIForPrompts_fields:
  assumes "cnae_has_type pf"
    and "\<not> truthy (map_of json ''video_prompt'') \<or> is_string (map_of json ''video_prompt'')"
  shows "\<exists>out. callOpenAIForPrompts pf d (Returns json) = Some out
     \<and> map_of out ''image_prompt'' =
          (if truthy (map_of json ''image_prompt'') then map_of json ''image_prompt''
           else Some (JStr (imagePromptFallback pf d)))
     \<and> (\<not> truthy (map_of json ''video_prompt'') \<longrightarrow>
          map_of out ''video_prompt'' = Some (JStr (improvePronunciation (videoPromptFallback pf d))))
     \<and> truthy (map_of out ''video_prompt'')
     \<and> map_of out ''overlay_text'' =
          (if truthy (map_of json ''overlay_text'') then map_of json ''overlay_text''
           else Some (JStr (''Tap to Pay'' @ [CHR 0x0A] @ ''no iPhone'')))
     \<and> map_of out ''button_text'' =
          (if truthy (map_of json ''button_text'') then map_of json ''button_text''
           else Some (JStr (''Come'' @ [CHR 0xE7] @ ''ar a usar'')))"
proof -
  let ?j4 = "supplyFallbacks pf d json"
  obtain s where s: "map_of ?j4 ''video_prompt'' = Some (JStr s)" "s \<noteq> []"
    and sv: "\<not> truthy (map_of json ''video_prompt'') \<Longrightarrow> s = videoPromptFallback pf d"
  proof (cases "truthy (map_of json ''video_prompt'')")
    case True
    then have "is_string (map_of json ''video_prompt'')" using assms(2) by simp
    then obtain t where t: "map_of json ''video_prompt'' = Some (JStr t)"
      by (cases "map_of json ''video_prompt''" rule: is_string.cases) auto
    then have "t \<noteq> []" using True by simp
    then show ?thesis using that[of t] t True by (simp add: supplyFallbacks_fields)
  next
    case False
    then show ?thesis
      using that[of "videoPromptFallback pf d"] fallbacks_nonempty(2)[of pf d]
      by (simp add: supplyFallbacks_fields)
  qed
  let ?out = "set_prop ''voice_metadata'' (voice_metadata pf)
                (set_prop ''video_prompt'' (JStr (improvePronunciation s)) ?j4)"
  have r: "callOpenAIForPrompts pf d (Returns json) = Some ?out"
    using assms(1) s by (rule callOpenAIForPrompts_returns)
  have i: "map_of ?out ''image_prompt'' = map_of ?j4 ''image_prompt''"
    and o: "map_of ?out ''overlay_text'' = map_of ?j4 ''overlay_text''"
    and b: "map_of ?out ''button_text'' = map_of ?j4 ''button_text''"
    and v: "map_of ?out ''video_prompt'' = Some (JStr (improvePronunciation s))"
    by (simp_all add: map_of_set_prop)
  have tv: "truthy (map_of ?out ''video_prompt'')"
    unfolding v using improvePronunciation_nonempty[OF s(2)] by simp
  have vf: "map_of ?out ''video_prompt'' = Some (JStr (improvePronunciation (videoPromptFallback pf d)))"
    if "\<not> truthy (map_of json ''video_prompt'')"
    using sv[OF that] v by simp
  show ?thesis
    apply (rule exI[of _ ?out])
    apply (intro conjI impI)
         apply (rule r)
        apply (simp only: i supplyFallbacks_fields)
       apply (erule vf)
      apply (rule tv)
     apply (simp only: o supplyFallbacks_fields)
    apply (simp only: b supplyFallbacks_fields)
    done
qed

lemma sample_has_type: "cnae_has_type sample_profile"
  by (simp add: cnae_has_type_def sample_profile_def)

text \<open>
  C9, as amended. For a profile whose CNAE is empty or contains the separator, and a
  response object whose \<open>video_prompt\<close> is missing or a string, the function returns
  an object in which all four fields are truthy. A missing \<open>overlay_text\<close> or
  \<open>button_text\<close> is replaced by a fixed text. A missing \<open>image_prompt\<close> is replaced by
  the text of line 1566 and a missing \<open>video_prompt\<close> by the text of lines 1588-1590
  after the rewriting of lines 1613-1615. For the same profile, two calls give the same
  fallback for \<open>overlay_text\<close> and \<open>button_text\<close> always, for \<open>image_prompt\<close> when
  they drew the same time of day, ethnicity and idle action, and for \<open>video_prompt\<close>
  when they drew these and the same B-roll text.
\<close>

theorem C9_fallbacks_supplied:
  assumes "cnae_has_type pf"
    and "\<not> truthy (map_of json ''video_prompt'') \<or> is_string (map_of json ''video_prompt'')"
  shows "\<exists>out. callOpenAIForPrompts pf d (Returns json) = Some out
     \<and> (\<not> truthy (map_of json ''image_prompt'') \<longrightarrow>
          map_of out ''image_prompt'' = Some (JStr (imagePromptFallback pf d)))
     \<and> (\<not> truthy (map_of json ''video_prompt'') \<longrightarrow>
          map_of out ''video_prompt'' = Some (JStr (improvePronunciation (videoPromptFallback pf d))))
     \<and> (\<not> truthy (map_of json ''overlay_text'') \<longrightarrow>
          map_of out ''overlay_text'' = Some (JStr (''Tap to Pay'' @ [CHR 0x0A] @ ''no iPhone'')))
     \<and> (\<not> truthy (map_of json ''button_text'') \<longrightarrow>
          map_of out ''button_text'' = Some (JStr (''Come'' @ [CHR 0xE7] @ ''ar a usar'')))
     \<and> truthy (map_of out ''image_prompt'') \<and> truthy (map_of out ''video_prompt'')
     \<and> truthy (map_of out ''overlay_text'') \<and> truthy (map_of out ''button_text'')
     \<and> (\<forall>d' json'.
           (\<not> truthy (map_of json' ''video_prompt'') \<or> is_string (map_of json' ''video_prompt'')) \<longrightarrow>
           (\<exists>out'. callOpenAIForPrompts pf d' (Returns json') = Some out'
              \<and> (\<not> truthy (map_of json ''overlay_text'') \<and> \<not> truthy (map_of json' ''overlay_text'') \<longrightarrow>
                   map_of out' ''overlay_text'' = map_of out ''overlay_text'')
              \<and> (\<not> truthy (map_of json ''button_text'') \<and> \<not> truthy (map_of json' ''button_text'') \<longrightarrow>
                   map_of out' ''button_text'' = map_of out ''button_text'')
              \<and> (\<not> truthy (map_of json ''image_prompt'') \<and> \<not> truthy (map_of json' ''image_prompt'') \<and>
                  timeIndex d' = timeIndex d \<and> ethnicityIndex d' = ethnicityIndex d \<and>
                  idleIndex d' = idleIndex d \<longrightarrow>
                   map_of out' ''image_prompt'' = map_of out ''image_prompt'')
              \<and> (\<not> truthy (map_of json ''video_prompt'') \<and> \<not> truthy (map_of json' ''video_prompt'') \<and>
                  timeIndex d' = timeIndex d \<and> ethnicityIndex d' = ethnicityIndex d \<and>
                  idleIndex d' = idleIndex d \<and> safeBRollText d' = safeBRollText d \<longrightarrow>
                   map_of out' ''video_prompt'' = map_of out ''video_prompt'')))"
proof -
  obtain out where out: "callOpenAIForPrompts pf d (Returns json) = Some out"
    and i: "map_of out ''image_prompt'' =
          (if truthy (map_of json ''image_prompt'') then map_of json ''image_prompt''
           else Some (JStr (imagePromptFallback pf d)))"
    and v: "\<not> truthy (map_of json ''video_prompt'') \<Longrightarrow>
          map_of out ''video_prompt'' = Some (JStr (improvePronunciation (videoPromptFallback pf d)))"
    and tv: "truthy (map_of out ''video_prompt'')"
    and o: "map_of out ''overlay_text'' =
          (if truthy (map_of json ''overlay_text'') then map_of json ''overlay_text''
           else Some (JStr (''Tap to Pay'' @ [CHR 0x0A] @ ''no iPhone'')))"
    and b: "map_of out ''button_text'' =
          (if truthy (map_of json ''button_text'') then map_of json ''button_text''
           else Some (JStr (''Come'' @ [CHR 0xE7] @ ''ar a usar'')))"
    using callOpenAIForPrompts_fields[OF assms, of d] by blast
  have ti: "truthy (map_of out ''image_prompt'')"
    unfolding i using fallbacks_nonempty(1)[of pf d] by simp
  have tovl: "truthy (map_of out ''overlay_text'')" unfolding o by simp
  have tb: "truthy (map_of out ''button_text'')" unfolding b by simp
  have two: "\<exists>out'. callOpenAIForPrompts pf d' (Returns json') = Some out'
              \<and> (\<not> truthy (map_of json ''overlay_text'') \<and> \<not> truthy (map_of json' ''overlay_text'') \<longrightarrow>
                   map_of out' ''overlay_text'' = map_of out ''overlay_text'')
              \<and> (\<not> truthy (map_of json ''button_text'') \<and> \<not> truthy (map_of json' ''button_text'') \<longrightarrow>
                   map_of out' ''button_text'' = map_of out ''button_text'')
              \<and> (\<not> truthy (map_of json ''image_prompt'') \<and> \<not> truthy (map_of json' ''image_prompt'') \<and>
                  timeIndex d' = timeIndex d \<and> ethnicityIndex d' = ethnicityIndex d \<and>
                  idleIndex d' = idleIndex d \<longrightarrow>
                   map_of out' ''image_prompt'' = map_of out ''image_prompt'')
              \<and> (\<not> truthy (map_of json ''video_prompt'') \<and> \<not> truthy (map_of json' ''video_prompt'') \<and>
                  timeIndex d' = timeIndex d \<and> ethnicityIndex d' = ethnicityIndex d \<and>
                  idleIndex d' = idleIndex d \<and> safeBRollText d' = safeBRollText d \<longrightarrow>
                   map_of out' ''video_prompt'' = map_of out ''video_prompt'')"
    if h: "\<not> truthy (map_of json' ''video_prompt'') \<or> is_string (map_of json' ''video_prompt'')"
    for d' json'
  proof -
    obtain out' where out': "callOpenAIForPrompts pf d' (Returns json') = Some out'"
      and i': "map_of out' ''image_prompt'' =
          (if truthy (map_of json' ''image_prompt'') then map_of json' ''image_prompt''
           else Some (JStr (imagePromptFallback pf d')))"
      and v': "\<not> truthy (map_of json' ''video_prompt'') \<Longrightarrow>
          map_of out' ''video_prompt'' = Some (JStr (improvePronunciation (videoPromptFallback pf d')))"
      and o': "map_of out' ''overlay_text'' =
          (if truthy (map_of json' ''overlay_text'') then map_of json' ''overlay_text''
           else Some (JStr (''Tap to Pay'' @ [CHR 0x0A] @ ''no iPhone'')))"
      and b': "map_of out' ''button_text'' =
          (if truthy (map_of json' ''button_text'') then map_of json' ''button_text''
           else Some (JStr (''Come'' @ [CHR 0xE7] @ ''ar a usar'')))"
      using callOpenAIForPrompts_fields[OF assms(1) h, of d'] by blast
    have "map_of out' ''image_prompt'' = map_of out ''image_prompt''"
      if "\<not> truthy (map_of json ''image_prompt'')" "\<not> truthy (map_of json' ''image_prompt'')"
         "timeIndex d' = timeIndex d" "ethnicityIndex d' = ethnicityIndex d" "idleIndex d' = idleIndex d"
      using that i i' imagePromptFallback_draws[OF that(3-5), of pf] by simp
    moreover have "map_of out' ''video_prompt'' = map_of out ''video_prompt''"
      if "\<not> truthy (map_of json ''video_prompt'')" "\<not> truthy (map_of json' ''video_prompt'')"
         "timeIndex d' = timeIndex d" "ethnicityIndex d' = ethnicityIndex d" "idleIndex d' = idleIndex d"
         "safeBRollText d' = safeBRollText d"
      using that v v' videoPromptFallback_draws[OF that(3-6), of pf] by simp
    ultimately show ?thesis using out' o o' b b' by auto
  qed
  have c1: "\<not> truthy (map_of json ''image_prompt'') \<longrightarrow>
          map_of out ''image_prompt'' = Some (JStr (imagePromptFallback pf d))"
    using i by simp
  have c2: "\<not> truthy (map_of json ''video_prompt'') \<longrightarrow>
          map_of out ''video_prompt'' = Some (JStr (improvePronunciation (videoPromptFallback pf d)))"
    using v by simp
  have c3: "\<not> truthy (map_of json ''overlay_text'') \<longrightarrow>
          map_of out ''overlay_text'' = Some (JStr (''Tap to Pay'' @ [CHR 0x0A] @ ''no iPhone''))"
    using o by simp
  have c4: "\<not> truthy (map_of json ''button_text'') \<longrightarrow>
          map_of out ''button_text'' = Some (JStr (''Come'' @ [CHR 0xE7] @ ''ar a usar''))"
    using b by simp
  show ?thesis
    by (rule exI[of _ out]) (intro conjI allI impI out c1 c2 c3 c4 ti tv tovl tb two)
qed

theorem C9_fallbacks_supplied_witness:
  "\<exists>out. callOpenAIForPrompts sample_profile (sample_draws 0) (Returns []) = Some out
     \<and> map_of out ''overlay_text'' = Some (JStr (''Tap to Pay'' @ [CHR 0x0A] @ ''no iPhone''))
     \<and> map_of out ''button_text'' = Some (JStr (''Come'' @ [CHR 0xE7] @ ''ar a usar''))
     \<and> map_of out ''image_prompt'' = Some (JStr (imagePromptFallback sample_profile (sample_draws 0)))
     \<and> map_of out ''video_prompt'' =
          Some (JStr (improvePronunciation (videoPromptFallback sample_profile (sample_draws 0))))"
proof -
  have h: "\<not> truthy (map_of [] ''video_prompt'') \<or> is_string (map_of [] ''video_prompt'')" by simp
  from C9_fallbacks_supplied[OF sample_has_type h, of "sample_draws 0"]
  show ?thesis by auto
qed

text \<open>
  C9 as stated fails for the prompts: the same profile and the same (empty) response
  give different \<open>image_prompt\<close> fallbacks when the time of day drawn is "Amanhecer"
  in one call and "Noite" in the other.
\<close>

lemma sample_time:
  "randomTimeOfDay (sample_draws 0) = ''Amanhecer''" "randomTimeOfDay (sample_draws 4) = ''Noite''"
  by (simp_all add: randomTimeOfDay_def element_text_def sample_draws_def timesOfDay_def)

lemma sample_image_prompts_differ:
  "imagePromptFallback sample_profile (sample_draws 0) \<noteq> imagePromptFallback sample_profile (sample_draws 4)"
  by (simp add: imagePromptFallback_def Let_def sample_time)

theorem C9_random_fallback_counterexample:
  "map_option (\<lambda>out. map_of out ''image_prompt'')
     (callOpenAIForPrompts sample_profile (sample_draws 0) (Returns []))
   \<noteq> map_option (\<lambda>out. map_of out ''image_prompt'')
       (callOpenAIForPrompts sample_profile (sample_draws 4) (Returns []))"
proof -
  have h: "\<not> truthy (map_of [] ''video_prompt'') \<or> is_string (map_of [] ''video_prompt'')" by simp
  obtain a where a: "callOpenAIForPrompts sample_profile (sample_draws 0) (Returns []) = Some a"
    and ai: "map_of a ''image_prompt'' = Some (JStr (imagePromptFallback sample_profile (sample_draws 0)))"
    using callOpenAIForPrompts_fields[OF sample_has_type h, of "sample_draws 0"] by auto
  obtain b where b: "callOpenAIForPrompts sample_profile (sample_draws 4) (Returns []) = Some b"
    and bi: "map_of b ''image_prompt'' = Some (JStr (imagePromptFallback sample_profile (sample_draws 4)))"
    using callOpenAIForPrompts_fields[OF sample_has_type h, of "sample_draws 4"] by auto
  show ?thesis
    unfolding a b using ai bi sample_image_prompts_differ by simp
qed

text \<open>The sample texts, and the rewriting of lines 1613-1615 on them.\<close>

lemma sample_business: "businessTypeOf sample_profile = ''Padaria''"
  by (simp add: businessTypeOf_def sample_profile_def)

lemma sample_choices:
  "randomEthnicity (sample_draws i) = ''negra retinta, pele bem escura, cabelos crespos''"
  "randomIdleAction (sample_draws i) = ''mostrando sua loja com gesto de orgulho''"
  by (simp_all add: randomEthnicity_def randomIdleAction_def element_text_def sample_draws_def
        ETHNICITIES_def IDLE_ACTIONS_def)

lemma sample_image_fallback:
  "imagePromptFallback sample_profile (sample_draws 4) =
     ''Noite, interior de uma Padaria brasileira moderna, ilumina'' @ [CHR 0xE7, CHR 0xE3]
     @ ''o natural, ao fundo produtos e clientes, sem letreiros vis'' @ [CHR 0xED]
     @ ''veis. Uma pessoa brasileira propriet'' @ [CHR 0xE1]
     @ ''ria, negra retinta, pele bem escura, cabelos crespos, Recife, ''
     @ ''mostrando sua loja com gesto de orgulho. Foto estilo selfie, perspectiva de primeira pessoa, ''
     @ [CHR 0xE2] @ ''ngulo de selfie, sem c'' @ [CHR 0xE2] @ ''mera vis'' @ [CHR 0xED] @ ''vel.''"
  by (simp add: imagePromptFallback_def sample_time sample_business sample_choices Let_def)
     (simp add: sample_profile_def)

lemma pronunciation_example:
  "improvePronunciation ''JIM e JIMMY, InfinitePay!'' = ''Din e JIMMY, Infinitip'' @ [CHR 0xEA] @ ''i!''"
  by (simp add: improvePronunciation_def is_word_char_def)

lemma sample_message:
  "improvePronunciation
     (fallbackMessage ''Padaria'' ''Recife'' ''JIM assistente virtual no app'') =
   ''Ia'' @ [CHR 0xED] @ '' pessoal! Aqui em Recife, Din assistente virtual no app triplicou meu faturamento! Neg''
   @ [CHR 0xF3] @ ''cio que era dif'' @ [CHR 0xED] @ ''cil ficou super f'' @ [CHR 0xE1] @ ''cil!''"
  by (simp add: fallbackMessage_def improvePronunciation_def is_word_char_def)

end
